theory Spec2Isabelle
  imports Main
begin

section \<open>JavaScript values\<close>

text \<open>
  The dashboard hook and the servers are TypeScript over untyped JSON: every message that
  crosses a socket is whatever \<^verbatim>\<open>JSON.parse\<close> returned. Values are modelled as a datatype.
  \<open>JNum\<close> is a number whose value is an integer; \<open>JDouble\<close> is any other number, held
  by its JavaScript rendering (\<^verbatim>\<open>2.5\<close>, \<^verbatim>\<open>NaN\<close>, \<^verbatim>\<open>-Infinity\<close>), negative zero by \<^verbatim>\<open>-0\<close>.
\<close>

datatype jsv =
    JUndefined
  | JNull
  | JBool bool
  | JNum int
  | JDouble string
  | JStr string
  | JArr "jsv list"
  | JObj "(string \<times> jsv) list"

text \<open>Truthiness, as used by \<^verbatim>\<open>if (x)\<close>, \<^verbatim>\<open>!x\<close> and \<^verbatim>\<open>x || y\<close>.\<close>

fun truthy :: "jsv \<Rightarrow> bool" where
  "truthy JUndefined = False"
| "truthy JNull = False"
| "truthy (JBool b) = b"
| "truthy (JNum n) = (n \<noteq> 0)"
| "truthy (JDouble s) = (s \<noteq> ''NaN'' \<and> s \<noteq> ''-0'')"
| "truthy (JStr s) = (s \<noteq> [])"
| "truthy (JArr xs) = True"
| "truthy (JObj kvs) = True"

text \<open>
  Reading a property of a parsed value: an own key of an object (the last occurrence wins,
  as in \<^verbatim>\<open>JSON.parse\<close>), \<^verbatim>\<open>undefined\<close> otherwise. On \<^verbatim>\<open>null\<close> and \<^verbatim>\<open>undefined\<close> JavaScript
  throws instead; the callers below test \<open>nullish\<close> first wherever the throw changes what
  they do.
\<close>

fun js_prop :: "jsv \<Rightarrow> string \<Rightarrow> jsv" where
  "js_prop (JObj kvs) k = (case map_of (rev kvs) k of Some v \<Rightarrow> v | None \<Rightarrow> JUndefined)"
| "js_prop v k = JUndefined"

definition nullish :: "jsv \<Rightarrow> bool" where
  "nullish v = (v = JNull \<or> v = JUndefined)"

text \<open>\<^verbatim>\<open>a || b\<close>.\<close>

definition js_or :: "jsv \<Rightarrow> jsv \<Rightarrow> jsv" where
  "js_or a b = (if truthy a then a else b)"

text \<open>
  \<^verbatim>\<open>ToString\<close> of a parsed value, as \<^verbatim>\<open>new Error(m)\<close> and a template literal apply it,
  returns a string or throws a \<^verbatim>\<open>TypeError\<close>. It throws on an object with an own key
  \<^verbatim>\<open>toString\<close>: the value under the key is not callable, and \<^verbatim>\<open>valueOf\<close>, own or
  inherited, returns no primitive. An array is joined from its elements, each converted
  in turn. \<open>convertible\<close> holds of the values on which it returns.
\<close>

fun convertible :: "jsv \<Rightarrow> bool" where
  "convertible (JObj kvs) = (map_of kvs ''toString'' = None)"
| "convertible (JArr xs) = list_all convertible xs"
| "convertible v = True"

text \<open>\<^verbatim>\<open>xs.slice(-n)\<close>: the last \<open>n\<close> elements, all of them when there are fewer.\<close>

definition slice_last :: "nat \<Rightarrow> 'a list \<Rightarrow> 'a list" where
  "slice_last n xs = drop (length xs - n) xs"

section \<open>The dashboard hook \<^verbatim>\<open>useWebSocket\<close>: connection state and message log\<close>

datatype ready_state = CONNECTING | OPEN | CLOSING | CLOSED

datatype call_kind =
    ExecuteTool | ListResources | ReadResource | ListTools | SendCustomMessage
  | AddServer | RemoveServer | TestConnection | ToggleServer | GetServerConfigs

text \<open>
  The variables one outbound call closes over. The call's listener and its timer are the
  closures \<^verbatim>\<open>handleResponse\<close> and the \<^verbatim>\<open>setTimeout\<close> callback of that call; both are
  identified by the promise they settle. \<open>c_deadline\<close> is the time the timer is due.
\<close>

record call =
  c_kind :: call_kind
  c_requestId :: string
  c_requestKey :: string
  c_serverName :: string
  c_promise :: nat
  c_deadline :: int

text \<open>
  A promise is pending, resolved with a value, or rejected with \<^verbatim>\<open>new Error(m)\<close>, held by
  the value \<open>m\<close> the constructor was given.
\<close>

datatype promise_state = Pending | Resolved jsv | Rejected jsv

text \<open>
  The hook's state: the React state (\<open>servers\<close>, \<open>messages\<close>, \<open>connected\<close>,
  \<open>reconnectAttempts\<close>), its refs (\<open>isConnecting\<close>, \<open>ongoingRequests\<close>, \<open>requestCache\<close>,
  the socket \<open>ws\<close>), and what it has handed to the runtime: reconnect timers scheduled
  (their delays, in order), per-call timers still armed (\<open>timeouts\<close>), the per-call
  listeners attached to the socket, the promises created, and the messages sent.
\<close>

record hook =
  servers :: jsv
  messages :: "jsv list"
  connected :: bool
  reconnectAttempts :: nat
  isConnecting :: bool
  reconnectTimeouts :: "nat list"
  ws :: "ready_state option"
  listeners :: "call list"
  timeouts :: "call list"
  promises :: "promise_state list"
  ongoingRequests :: "string \<rightharpoonup> nat"
  requestCache :: "string \<rightharpoonup> (jsv \<times> int)"
  sent :: "jsv list"

definition maxReconnectAttempts :: nat where
  "maxReconnectAttempts = 5"

definition CACHE_DURATION :: int where
  "CACHE_DURATION = 2000"

text \<open>
  \<^verbatim>\<open>DashboardState.messages\<close> is declared \<^verbatim>\<open>MCPMessage[]\<close> and the hub sends its
  \<^verbatim>\<open>messageHistory\<close> array: \<^verbatim>\<open>data.data.messages || []\<close> is read as an array.
\<close>

fun as_array :: "jsv \<Rightarrow> jsv list" where
  "as_array (JArr xs) = xs"
| "as_array v = []"

text \<open>
  \<^verbatim>\<open>ws.current.onmessage\<close>. The argument is the parsed \<^verbatim>\<open>event.data\<close>, \<open>None\<close> when
  \<^verbatim>\<open>JSON.parse\<close> throws. Each case logs a property of \<^verbatim>\<open>data.data\<close> first, which throws
  when \<^verbatim>\<open>data.data\<close> is \<^verbatim>\<open>null\<close> or \<^verbatim>\<open>undefined\<close>; the surrounding \<^verbatim>\<open>catch\<close> then leaves
  the state as it was.
\<close>

definition onmessage :: "jsv option \<Rightarrow> hook \<Rightarrow> hook" where
  "onmessage parsed st =
     (case parsed of
        None \<Rightarrow> st
      | Some data \<Rightarrow>
          (let ty = js_prop data ''type''; dd = js_prop data ''data'' in
           if ty = JStr ''initial-state'' then
             (if nullish dd then st
              else st\<lparr>servers := js_or (js_prop dd ''servers'') (JArr []),
                      messages := as_array (js_or (js_prop dd ''messages'') (JArr []))\<rparr>)
           else if ty = JStr ''server-status'' \<or> ty = JStr ''server-status-update'' then
             (if nullish dd then st else st\<lparr>servers := dd\<rparr>)
           else if ty = JStr ''new-message'' then
             (if nullish dd then st
              else st\<lparr>messages := slice_last 100 (messages st @ [dd])\<rparr>)
           else st))"

text \<open>
  \<^verbatim>\<open>ws.current.onclose\<close>, with \<^verbatim>\<open>event.code\<close>. The updater passed to
  \<^verbatim>\<open>setReconnectAttempts\<close> reads the current count, schedules \<^verbatim>\<open>connect\<close> after
  \<^verbatim>\<open>timeout\<close> milliseconds and returns the count plus one, or returns the count unchanged
  once it has reached \<open>maxReconnectAttempts\<close>.
\<close>

definition onclose :: "int \<Rightarrow> hook \<Rightarrow> hook" where
  "onclose code st =
     (let st1 = st\<lparr>connected := False, isConnecting := False\<rparr> in
      if code \<noteq> 1000 then
        (let currentAttempts = reconnectAttempts st1 in
         if currentAttempts < maxReconnectAttempts then
           (let timeout = min (2000 + currentAttempts * 1000) 10000 in
            st1\<lparr>reconnectTimeouts := reconnectTimeouts st1 @ [timeout],
                reconnectAttempts := currentAttempts + 1\<rparr>)
         else st1)
      else st1)"

text \<open>\<^verbatim>\<open>ws.current.onopen\<close>.\<close>

definition onopen :: "hook \<Rightarrow> hook" where
  "onopen st = st\<lparr>connected := True, reconnectAttempts := 0, isConnecting := False\<rparr>"

text \<open>A run of close events, oldest first.\<close>

definition closes :: "int list \<Rightarrow> hook \<Rightarrow> hook" where
  "closes codes st = foldl (\<lambda>s code. onclose code s) st codes"

text \<open>A run of \<^verbatim>\<open>new-message\<close> pushes from the hub, oldest first.\<close>

definition new_message :: "jsv \<Rightarrow> jsv" where
  "new_message m = JObj [(''type'', JStr ''new-message''), (''data'', m)]"

definition pushes :: "jsv list \<Rightarrow> hook \<Rightarrow> hook" where
  "pushes ms st = foldl (\<lambda>s m. onmessage (Some (new_message m)) s) st ms"


section \<open>Decimal rendering\<close>

definition digit_char :: "nat \<Rightarrow> char" where
  "digit_char d = ''0123456789'' ! d"

fun digits :: "nat \<Rightarrow> string" where
  "digits n = (if n < 10 then [digit_char n] else digits (n div 10) @ [digit_char (n mod 10)])"

declare digits.simps [simp del]

text \<open>An integer-valued number as JavaScript prints it (below \<open>10^21\<close> in magnitude).\<close>

definition show_int :: "int \<Rightarrow> string" where
  "show_int i = (if i < 0 then CHR ''-'' # digits (nat (- i)) else digits (nat i))"

text \<open>
  The digits of a non-negative integer computed on \<open>int\<close>, where division by ten is
  evaluated on the binary numeral; \<open>show_int\<close> is evaluated through it.
\<close>

function int_digits :: "int \<Rightarrow> string" where
  "int_digits i =
     (if i < 10 then [digit_char (nat i)]
      else int_digits (i div 10) @ [digit_char (nat (i mod 10))])"
  by pat_completeness auto

termination
  by (relation "measure nat") auto

declare int_digits.simps [simp del]

section \<open>The dashboard hook: outbound calls\<close>

text \<open>
  \<^verbatim>\<open>JSON.stringify\<close> is the runtime's; the functions that build a request key take it as
  the parameter \<open>stringify\<close>. \<^verbatim>\<open>Date.now()\<close> is the parameter \<open>now\<close>, read once per
  synchronous run, and \<^verbatim>\<open>Math.random().toString(36).substr(2, 9)\<close> is the parameter \<open>rnd\<close>.
\<close>

definition createRequestKey :: "(jsv \<Rightarrow> string) \<Rightarrow> string \<Rightarrow> string \<Rightarrow> jsv \<Rightarrow> string" where
  "createRequestKey stringify type serverName params =
     (let paramString = (if truthy params then stringify params else []) in
      type @ '':'' @ serverName @ '':'' @ paramString)"

definition getCachedResult :: "string \<Rightarrow> int \<Rightarrow> hook \<Rightarrow> jsv" where
  "getCachedResult requestKey now st =
     (case requestCache st requestKey of
        Some (result, timestamp) \<Rightarrow>
          if now - timestamp < CACHE_DURATION then result else JNull
      | None \<Rightarrow> JNull)"

definition setCachedResult :: "string \<Rightarrow> jsv \<Rightarrow> int \<Rightarrow> hook \<Rightarrow> hook" where
  "setCachedResult requestKey result now st =
     st\<lparr>requestCache := (requestCache st)(requestKey \<mapsto> (result, now))\<rparr>"

definition sendMessage :: "jsv \<Rightarrow> hook \<Rightarrow> hook" where
  "sendMessage message st =
     (if ws st = Some OPEN then st\<lparr>sent := sent st @ [message]\<rparr> else st)"

text \<open>
  Promises. \<^verbatim>\<open>new Promise\<close> appends a pending promise, whose index names it;
  \<^verbatim>\<open>resolve\<close> and \<^verbatim>\<open>reject\<close> settle a pending promise and do nothing to a settled one, as
  the language defines them.
\<close>

definition settle :: "nat \<Rightarrow> promise_state \<Rightarrow> hook \<Rightarrow> hook" where
  "settle p outcome st =
     (if p < length (promises st) \<and> promises st ! p = Pending
      then st\<lparr>promises := (promises st)[p := outcome]\<rparr> else st)"

definition resolve :: "nat \<Rightarrow> jsv \<Rightarrow> hook \<Rightarrow> hook" where
  "resolve p v st = settle p (Resolved v) st"

definition reject :: "nat \<Rightarrow> jsv \<Rightarrow> hook \<Rightarrow> hook" where
  "reject p m st = settle p (Rejected m) st"

text \<open>
  \<^verbatim>\<open>reject(new Error(m))\<close> as the last statement of a listener's \<^verbatim>\<open>try\<close> block: the
  constructor converts \<open>m\<close> to a string first, and when that throws the listener's
  \<^verbatim>\<open>catch\<close> swallows the exception and \<^verbatim>\<open>reject\<close> is never called.
\<close>

definition reject_new_Error :: "nat \<Rightarrow> jsv \<Rightarrow> hook \<Rightarrow> hook" where
  "reject_new_Error p m st = (if convertible m then reject p m st else st)"

text \<open>\<^verbatim>\<open>Promise.resolve(v)\<close>: a new promise, already resolved.\<close>

definition promise_resolve :: "jsv \<Rightarrow> hook \<Rightarrow> nat \<times> hook" where
  "promise_resolve v st = (length (promises st), st\<lparr>promises := promises st @ [Resolved v]\<rparr>)"

text \<open>
  Timers and listeners. \<^verbatim>\<open>addEventListener\<close> and \<^verbatim>\<open>removeEventListener\<close> are guarded
  by \<^verbatim>\<open>if (ws.current)\<close> and \<^verbatim>\<open>ws.current?.\<close> in every call.
\<close>

definition setTimeout :: "call \<Rightarrow> hook \<Rightarrow> hook" where
  "setTimeout c st = st\<lparr>timeouts := timeouts st @ [c]\<rparr>"

definition clearTimeout :: "call \<Rightarrow> hook \<Rightarrow> hook" where
  "clearTimeout c st = st\<lparr>timeouts := filter (\<lambda>t. c_promise t \<noteq> c_promise c) (timeouts st)\<rparr>"

definition addEventListener :: "call \<Rightarrow> hook \<Rightarrow> hook" where
  "addEventListener c st =
     (if ws st = None then st else st\<lparr>listeners := listeners st @ [c]\<rparr>)"

definition removeEventListener :: "call \<Rightarrow> hook \<Rightarrow> hook" where
  "removeEventListener c st =
     (if ws st = None then st
      else st\<lparr>listeners := filter (\<lambda>l. c_promise l \<noteq> c_promise c) (listeners st)\<rparr>)"

text \<open>\<^verbatim>\<open>setState(prev => ({...prev, messages: [...prev.messages, m].slice(-100)}))\<close>.\<close>

definition log_message :: "jsv \<Rightarrow> hook \<Rightarrow> hook" where
  "log_message m st = st\<lparr>messages := slice_last 100 (messages st @ [m])\<rparr>"

subsection \<open>\<^verbatim>\<open>executeTool\<close>\<close>

definition executeTool ::
  "(jsv \<Rightarrow> string) \<Rightarrow> string \<Rightarrow> string \<Rightarrow> jsv \<Rightarrow> int \<Rightarrow> string \<Rightarrow> hook \<Rightarrow> nat \<times> hook" where
  "executeTool stringify serverName toolName params now rnd st =
     (let requestKey = createRequestKey stringify ''executeTool'' serverName
                         (JObj [(''toolName'', JStr toolName), (''params'', params)]);
          cachedResult = getCachedResult requestKey now st
      in if truthy cachedResult \<and>
            (case requestCache st requestKey of
               Some (result, timestamp) \<Rightarrow> now - timestamp < 500
             | None \<Rightarrow> False)
         then promise_resolve cachedResult st
         else
           (let p = length (promises st);
                requestId = ''tool_'' @ show_int now @ ''_'' @ rnd;
                c = \<lparr>c_kind = ExecuteTool, c_requestId = requestId, c_requestKey = requestKey,
                     c_serverName = serverName, c_promise = p, c_deadline = now + 30000\<rparr>;
                st1 = st\<lparr>promises := promises st @ [Pending]\<rparr>;
                st2 = setTimeout c st1;
                st3 = addEventListener c st2;
                st4 = sendMessage
                        (JObj [(''type'', JStr ''execute-tool''), (''requestId'', JStr requestId),
                               (''serverName'', JStr serverName), (''toolName'', JStr toolName),
                               (''params'', params)]) st3
            in (p, st4)))"

definition timeout_executeTool :: "call \<Rightarrow> hook \<Rightarrow> hook" where
  "timeout_executeTool c st = reject (c_promise c) (JStr ''Tool execution timeout'') st"

definition handleResponse_executeTool :: "call \<Rightarrow> jsv option \<Rightarrow> int \<Rightarrow> hook \<Rightarrow> hook" where
  "handleResponse_executeTool c parsed now st =
     (case parsed of
        None \<Rightarrow> st
      | Some data \<Rightarrow>
          if js_prop data ''type'' = JStr ''tool-response'' \<and>
             js_prop data ''requestId'' = JStr (c_requestId c)
          then
            (let st1 = removeEventListener c (clearTimeout c st) in
             if truthy (js_prop data ''error'')
             then reject_new_Error (c_promise c)
                    (js_or (js_prop (js_prop data ''error'') ''message'')
                       (JStr ''Tool execution failed'')) st1
             else resolve (c_promise c) (js_prop data ''result'')
                    (setCachedResult (c_requestKey c) (js_prop data ''result'') now st1))
          else st)"

subsection \<open>\<^verbatim>\<open>listResources\<close>\<close>

definition listResources ::
  "(jsv \<Rightarrow> string) \<Rightarrow> string \<Rightarrow> int \<Rightarrow> string \<Rightarrow> hook \<Rightarrow> nat \<times> hook" where
  "listResources stringify serverName now rnd st =
     (let requestKey = createRequestKey stringify ''listResources'' serverName JUndefined;
          cachedResult = getCachedResult requestKey now st
      in if truthy cachedResult then promise_resolve cachedResult st
         else
           (case ongoingRequests st requestKey of
              Some existingRequest \<Rightarrow> (existingRequest, st)
            | None \<Rightarrow>
                (let p = length (promises st);
                     requestId = ''resources_'' @ show_int now @ ''_'' @ rnd;
                     c = \<lparr>c_kind = ListResources, c_requestId = requestId,
                          c_requestKey = requestKey, c_serverName = serverName,
                          c_promise = p, c_deadline = now + 10000\<rparr>;
                     st1 = st\<lparr>promises := promises st @ [Pending]\<rparr>;
                     st2 = setTimeout c st1;
                     st3 = addEventListener c st2;
                     st4 = sendMessage
                             (JObj [(''type'', JStr ''list-resources''),
                                    (''requestId'', JStr requestId),
                                    (''serverName'', JStr serverName)]) st3;
                     st5 = st4\<lparr>ongoingRequests := (ongoingRequests st4)(requestKey \<mapsto> p)\<rparr>
                 in (p, st5))))"

definition timeout_listResources :: "call \<Rightarrow> hook \<Rightarrow> hook" where
  "timeout_listResources c st =
     reject (c_promise c) (JStr ''List resources timeout'')
       (st\<lparr>ongoingRequests := (ongoingRequests st)(c_requestKey c := None)\<rparr>)"

definition handleResponse_listResources :: "call \<Rightarrow> jsv option \<Rightarrow> int \<Rightarrow> hook \<Rightarrow> hook" where
  "handleResponse_listResources c parsed now st =
     (case parsed of
        None \<Rightarrow> st
      | Some data \<Rightarrow>
          if js_prop data ''type'' = JStr ''resources-response'' \<and>
             js_prop data ''requestId'' = JStr (c_requestId c)
          then
            (let st1 = removeEventListener c (clearTimeout c st) in
             if truthy (js_prop data ''error'')
             then reject_new_Error (c_promise c)
                    (js_or (js_prop (js_prop data ''error'') ''message'')
                       (JStr ''Failed to list resources''))
                    (st1\<lparr>ongoingRequests := (ongoingRequests st1)(c_requestKey c := None)\<rparr>)
             else
               (let st2 = setCachedResult (c_requestKey c) (js_prop data ''result'') now st1;
                    st3 = st2\<lparr>ongoingRequests := (ongoingRequests st2)(c_requestKey c := None)\<rparr>
                in resolve (c_promise c) (js_prop data ''result'') st3))
          else st)"

subsection \<open>\<^verbatim>\<open>readResource\<close>\<close>

definition readResource :: "string \<Rightarrow> string \<Rightarrow> int \<Rightarrow> string \<Rightarrow> hook \<Rightarrow> nat \<times> hook" where
  "readResource serverName uri now rnd st =
     (let p = length (promises st);
          requestId = ''read_resource_'' @ show_int now @ ''_'' @ rnd;
          c = \<lparr>c_kind = ReadResource, c_requestId = requestId, c_requestKey = [],
               c_serverName = serverName, c_promise = p, c_deadline = now + 10000\<rparr>;
          requestMessage =
            JObj [(''id'', JStr requestId), (''timestamp'', JNum now),
                  (''type'', JStr ''request''), (''method'', JStr ''resources/read''),
                  (''params'', JObj [(''uri'', JStr uri)]),
                  (''serverName'', JStr serverName),
                  (''direction'', JStr ''client-to-server'')];
          st1 = st\<lparr>promises := promises st @ [Pending]\<rparr>;
          st2 = log_message requestMessage st1;
          st3 = setTimeout c st2;
          st4 = addEventListener c st3;
          st5 = sendMessage
                  (JObj [(''type'', JStr ''read-resource''), (''requestId'', JStr requestId),
                         (''serverName'', JStr serverName), (''uri'', JStr uri)]) st4
      in (p, st5))"

definition timeout_readResource :: "call \<Rightarrow> int \<Rightarrow> hook \<Rightarrow> hook" where
  "timeout_readResource c now st =
     (let errorMessage =
            JObj [(''id'', JStr (c_requestId c @ ''_timeout'')), (''timestamp'', JNum now),
                  (''type'', JStr ''response''),
                  (''error'', JObj [(''message'', JStr ''Read resource timeout'')]),
                  (''serverName'', JStr (c_serverName c)),
                  (''direction'', JStr ''server-to-client'')]
      in reject (c_promise c) (JStr ''Read resource timeout'') (log_message errorMessage st))"

definition handleResponse_readResource :: "call \<Rightarrow> jsv option \<Rightarrow> int \<Rightarrow> hook \<Rightarrow> hook" where
  "handleResponse_readResource c parsed now st =
     (case parsed of
        None \<Rightarrow> st
      | Some data \<Rightarrow>
          if js_prop data ''type'' = JStr ''read-resource-response'' \<and>
             js_prop data ''requestId'' = JStr (c_requestId c)
          then
            (let st1 = removeEventListener c (clearTimeout c st);
                 responseMessage =
                   JObj [(''id'', JStr (c_requestId c @ ''_response'')),
                         (''timestamp'', JNum now), (''type'', JStr ''response''),
                         (''result'', js_prop data ''result''),
                         (''error'', js_prop data ''error''),
                         (''serverName'', JStr (c_serverName c)),
                         (''direction'', JStr ''server-to-client'')];
                 st2 = log_message responseMessage st1
             in if truthy (js_prop data ''error'')
                then reject_new_Error (c_promise c)
                       (js_or (js_prop (js_prop data ''error'') ''message'')
                          (JStr ''Failed to read resource'')) st2
                else resolve (c_promise c) (js_prop data ''result'') st2)
          else st)"

subsection \<open>\<^verbatim>\<open>listTools\<close>\<close>

definition listTools ::
  "(jsv \<Rightarrow> string) \<Rightarrow> string \<Rightarrow> int \<Rightarrow> string \<Rightarrow> hook \<Rightarrow> nat \<times> hook" where
  "listTools stringify serverName now rnd st =
     (let requestKey = createRequestKey stringify ''listTools'' serverName JUndefined;
          cachedResult = getCachedResult requestKey now st
      in if truthy cachedResult then promise_resolve cachedResult st
         else
           (case ongoingRequests st requestKey of
              Some existingRequest \<Rightarrow> (existingRequest, st)
            | None \<Rightarrow>
                (let p = length (promises st);
                     requestId = ''tools_'' @ show_int now @ ''_'' @ rnd;
                     c = \<lparr>c_kind = ListTools, c_requestId = requestId,
                          c_requestKey = requestKey, c_serverName = serverName,
                          c_promise = p, c_deadline = now + 10000\<rparr>;
                     st1 = st\<lparr>promises := promises st @ [Pending]\<rparr>;
                     st2 = setTimeout c st1;
                     st3 = addEventListener c st2;
                     st4 = sendMessage
                             (JObj [(''type'', JStr ''list-tools''),
                                    (''requestId'', JStr requestId),
                                    (''serverName'', JStr serverName)]) st3;
                     st5 = st4\<lparr>ongoingRequests := (ongoingRequests st4)(requestKey \<mapsto> p)\<rparr>
                 in (p, st5))))"

definition timeout_listTools :: "call \<Rightarrow> hook \<Rightarrow> hook" where
  "timeout_listTools c st =
     reject (c_promise c) (JStr ''List tools timeout'')
       (st\<lparr>ongoingRequests := (ongoingRequests st)(c_requestKey c := None)\<rparr>)"

definition handleResponse_listTools :: "call \<Rightarrow> jsv option \<Rightarrow> int \<Rightarrow> hook \<Rightarrow> hook" where
  "handleResponse_listTools c parsed now st =
     (case parsed of
        None \<Rightarrow> st
      | Some data \<Rightarrow>
          if js_prop data ''type'' = JStr ''tools-response'' \<and>
             js_prop data ''requestId'' = JStr (c_requestId c)
          then
            (let st1 = removeEventListener c (clearTimeout c st) in
             if truthy (js_prop data ''error'')
             then reject_new_Error (c_promise c)
                    (js_or (js_prop (js_prop data ''error'') ''message'')
                       (JStr ''Failed to list tools''))
                    (st1\<lparr>ongoingRequests := (ongoingRequests st1)(c_requestKey c := None)\<rparr>)
             else
               (let st2 = setCachedResult (c_requestKey c) (js_prop data ''result'') now st1;
                    st3 = st2\<lparr>ongoingRequests := (ongoingRequests st2)(c_requestKey c := None)\<rparr>
                in resolve (c_promise c) (js_prop data ''result'') st3))
          else st)"

subsection \<open>\<^verbatim>\<open>sendCustomMessage\<close>\<close>

text \<open>
  The executor logs \<^verbatim>\<open>message.method\<close> in a template literal before it arms the timer.
  When \<open>message\<close> is \<^verbatim>\<open>null\<close> or \<^verbatim>\<open>undefined\<close>, or the method cannot be converted to a
  string, the executor throws and the promise it was building is rejected with that
  \<^verbatim>\<open>TypeError\<close>, held here by its name.
\<close>

definition sendCustomMessage ::
  "jsv \<Rightarrow> string option \<Rightarrow> int \<Rightarrow> string \<Rightarrow> hook \<Rightarrow> nat \<times> hook" where
  "sendCustomMessage message serverName now rnd st =
     (let p = length (promises st);
          requestId = ''custom_'' @ show_int now @ ''_'' @ rnd;
          targetServer = (case serverName of
                            Some s \<Rightarrow> if s = [] then ''calculator-server'' else s
                          | None \<Rightarrow> ''calculator-server'')
      in if nullish message then (p, st\<lparr>promises := promises st @ [Rejected (JStr ''TypeError'')]\<rparr>)
         else if convertible (js_prop message ''method'') then
           (let c = \<lparr>c_kind = SendCustomMessage, c_requestId = requestId, c_requestKey = [],
                     c_serverName = targetServer, c_promise = p, c_deadline = now + 15000\<rparr>;
                st1 = st\<lparr>promises := promises st @ [Pending]\<rparr>;
                st2 = setTimeout c st1;
                st3 = addEventListener c st2;
                st4 = sendMessage
                        (JObj [(''type'', JStr ''send-custom-message''),
                               (''requestId'', JStr requestId), (''message'', message),
                               (''serverName'', JStr targetServer)]) st3
            in (p, st4))
         else (p, st\<lparr>promises := promises st @ [Rejected (JStr ''TypeError'')]\<rparr>))"

definition timeout_sendCustomMessage :: "call \<Rightarrow> int \<Rightarrow> hook \<Rightarrow> hook" where
  "timeout_sendCustomMessage c now st =
     (let errorMessage =
            JObj [(''id'', JStr (c_requestId c @ ''_timeout'')), (''timestamp'', JNum now),
                  (''type'', JStr ''response''),
                  (''error'', JObj [(''message'', JStr ''Custom message timeout'')]),
                  (''serverName'', JStr (c_serverName c)),
                  (''direction'', JStr ''server-to-client'')]
      in reject (c_promise c) (JStr ''Custom message timeout'') (log_message errorMessage st))"

definition handleResponse_sendCustomMessage ::
  "call \<Rightarrow> jsv option \<Rightarrow> int \<Rightarrow> hook \<Rightarrow> hook" where
  "handleResponse_sendCustomMessage c parsed now st =
     (case parsed of
        None \<Rightarrow> st
      | Some data \<Rightarrow>
          if js_prop data ''type'' = JStr ''custom-message-response'' \<and>
             js_prop data ''requestId'' = JStr (c_requestId c)
          then
            (let st1 = removeEventListener c (clearTimeout c st) in
             if truthy (js_prop data ''error'')
             then reject_new_Error (c_promise c)
                    (js_or (js_prop (js_prop data ''error'') ''message'')
                       (JStr ''Custom message failed'')) st1
             else resolve (c_promise c) (js_prop data ''result'') st1)
          else st)"

subsection \<open>\<^verbatim>\<open>addServer\<close>\<close>

definition addServer :: "jsv \<Rightarrow> int \<Rightarrow> string \<Rightarrow> hook \<Rightarrow> nat \<times> hook" where
  "addServer config now rnd st =
     (let p = length (promises st);
          requestId = ''add_server_'' @ show_int now @ ''_'' @ rnd;
          c = \<lparr>c_kind = AddServer, c_requestId = requestId, c_requestKey = [],
               c_serverName = [], c_promise = p, c_deadline = now + 15000\<rparr>;
          st1 = st\<lparr>promises := promises st @ [Pending]\<rparr>;
          st2 = setTimeout c st1;
          st3 = addEventListener c st2;
          st4 = sendMessage
                  (JObj [(''type'', JStr ''add-server''), (''requestId'', JStr requestId),
                         (''config'', config)]) st3
      in (p, st4))"

definition timeout_addServer :: "call \<Rightarrow> hook \<Rightarrow> hook" where
  "timeout_addServer c st = reject (c_promise c) (JStr ''Add server timeout'') st"

definition handleResponse_addServer :: "call \<Rightarrow> jsv option \<Rightarrow> int \<Rightarrow> hook \<Rightarrow> hook" where
  "handleResponse_addServer c parsed now st =
     (case parsed of
        None \<Rightarrow> st
      | Some data \<Rightarrow>
          if js_prop data ''type'' = JStr ''server-management-response'' \<and>
             js_prop data ''requestId'' = JStr (c_requestId c)
          then
            (let st1 = removeEventListener c (clearTimeout c st) in
             if truthy (js_prop data ''success'')
             then resolve (c_promise c) JUndefined st1
             else reject_new_Error (c_promise c)
                    (js_or (js_prop data ''error'') (JStr ''Failed to add server'')) st1)
          else st)"

subsection \<open>\<^verbatim>\<open>removeServer\<close>\<close>

definition removeServer :: "string \<Rightarrow> int \<Rightarrow> string \<Rightarrow> hook \<Rightarrow> nat \<times> hook" where
  "removeServer serverId now rnd st =
     (let p = length (promises st);
          requestId = ''remove_server_'' @ show_int now @ ''_'' @ rnd;
          c = \<lparr>c_kind = RemoveServer, c_requestId = requestId, c_requestKey = [],
               c_serverName = [], c_promise = p, c_deadline = now + 10000\<rparr>;
          st1 = st\<lparr>promises := promises st @ [Pending]\<rparr>;
          st2 = setTimeout c st1;
          st3 = addEventListener c st2;
          st4 = sendMessage
                  (JObj [(''type'', JStr ''remove-server''), (''requestId'', JStr requestId),
                         (''serverId'', JStr serverId)]) st3
      in (p, st4))"

definition timeout_removeServer :: "call \<Rightarrow> hook \<Rightarrow> hook" where
  "timeout_removeServer c st = reject (c_promise c) (JStr ''Remove server timeout'') st"

definition handleResponse_removeServer :: "call \<Rightarrow> jsv option \<Rightarrow> int \<Rightarrow> hook \<Rightarrow> hook" where
  "handleResponse_removeServer c parsed now st =
     (case parsed of
        None \<Rightarrow> st
      | Some data \<Rightarrow>
          if js_prop data ''type'' = JStr ''server-management-response'' \<and>
             js_prop data ''requestId'' = JStr (c_requestId c)
          then
            (let st1 = removeEventListener c (clearTimeout c st) in
             if truthy (js_prop data ''success'')
             then resolve (c_promise c) JUndefined st1
             else reject_new_Error (c_promise c)
                    (js_or (js_prop data ''error'') (JStr ''Failed to remove server'')) st1)
          else st)"

subsection \<open>\<^verbatim>\<open>testConnection\<close>\<close>

definition testConnection :: "jsv \<Rightarrow> int \<Rightarrow> string \<Rightarrow> hook \<Rightarrow> nat \<times> hook" where
  "testConnection config now rnd st =
     (let p = length (promises st);
          requestId = ''test_connection_'' @ show_int now @ ''_'' @ rnd;
          c = \<lparr>c_kind = TestConnection, c_requestId = requestId, c_requestKey = [],
               c_serverName = [], c_promise = p, c_deadline = now + 10000\<rparr>;
          st1 = st\<lparr>promises := promises st @ [Pending]\<rparr>;
          st2 = setTimeout c st1;
          st3 = addEventListener c st2;
          st4 = sendMessage
                  (JObj [(''type'', JStr ''test-connection''), (''requestId'', JStr requestId),
                         (''config'', config)]) st3
      in (p, st4))"

definition timeout_testConnection :: "call \<Rightarrow> hook \<Rightarrow> hook" where
  "timeout_testConnection c st = reject (c_promise c) (JStr ''Connection test timeout'') st"

definition handleResponse_testConnection ::
  "call \<Rightarrow> jsv option \<Rightarrow> int \<Rightarrow> hook \<Rightarrow> hook" where
  "handleResponse_testConnection c parsed now st =
     (case parsed of
        None \<Rightarrow> st
      | Some data \<Rightarrow>
          if js_prop data ''type'' = JStr ''server-management-response'' \<and>
             js_prop data ''requestId'' = JStr (c_requestId c)
          then
            (let st1 = removeEventListener c (clearTimeout c st) in
             if truthy (js_prop data ''success'')
             then resolve (c_promise c) (JBool True) st1
             else reject_new_Error (c_promise c)
                    (js_or (js_prop data ''error'') (JStr ''Connection test failed'')) st1)
          else st)"

subsection \<open>\<^verbatim>\<open>toggleServer\<close>\<close>

definition toggleServer :: "string \<Rightarrow> bool \<Rightarrow> int \<Rightarrow> string \<Rightarrow> hook \<Rightarrow> nat \<times> hook" where
  "toggleServer serverId enabled now rnd st =
     (let p = length (promises st);
          requestId = ''toggle_server_'' @ show_int now @ ''_'' @ rnd;
          c = \<lparr>c_kind = ToggleServer, c_requestId = requestId, c_requestKey = [],
               c_serverName = [], c_promise = p, c_deadline = now + 10000\<rparr>;
          st1 = st\<lparr>promises := promises st @ [Pending]\<rparr>;
          st2 = setTimeout c st1;
          st3 = addEventListener c st2;
          st4 = sendMessage
                  (JObj [(''type'', JStr ''toggle-server''), (''requestId'', JStr requestId),
                         (''serverId'', JStr serverId), (''enabled'', JBool enabled)]) st3
      in (p, st4))"

definition timeout_toggleServer :: "call \<Rightarrow> hook \<Rightarrow> hook" where
  "timeout_toggleServer c st = reject (c_promise c) (JStr ''Toggle server timeout'') st"

definition handleResponse_toggleServer :: "call \<Rightarrow> jsv option \<Rightarrow> int \<Rightarrow> hook \<Rightarrow> hook" where
  "handleResponse_toggleServer c parsed now st =
     (case parsed of
        None \<Rightarrow> st
      | Some data \<Rightarrow>
          if js_prop data ''type'' = JStr ''server-management-response'' \<and>
             js_prop data ''requestId'' = JStr (c_requestId c)
          then
            (let st1 = removeEventListener c (clearTimeout c st) in
             if truthy (js_prop data ''success'')
             then resolve (c_promise c) JUndefined st1
             else reject_new_Error (c_promise c)
                    (js_or (js_prop data ''error'') (JStr ''Failed to toggle server'')) st1)
          else st)"

subsection \<open>\<^verbatim>\<open>getServerConfigs\<close>\<close>

definition getServerConfigs :: "int \<Rightarrow> string \<Rightarrow> hook \<Rightarrow> nat \<times> hook" where
  "getServerConfigs now rnd st =
     (let p = length (promises st);
          requestId = ''configs_'' @ show_int now @ ''_'' @ rnd;
          c = \<lparr>c_kind = GetServerConfigs, c_requestId = requestId, c_requestKey = [],
               c_serverName = [], c_promise = p, c_deadline = now + 10000\<rparr>;
          st1 = st\<lparr>promises := promises st @ [Pending]\<rparr>;
          st2 = setTimeout c st1;
          st3 = addEventListener c st2;
          st4 = sendMessage
                  (JObj [(''type'', JStr ''get-server-configs''),
                         (''requestId'', JStr requestId)]) st3
      in (p, st4))"

definition timeout_getServerConfigs :: "call \<Rightarrow> hook \<Rightarrow> hook" where
  "timeout_getServerConfigs c st =
     reject (c_promise c) (JStr ''Get server configs timeout'') st"

definition handleResponse_getServerConfigs ::
  "call \<Rightarrow> jsv option \<Rightarrow> int \<Rightarrow> hook \<Rightarrow> hook" where
  "handleResponse_getServerConfigs c parsed now st =
     (case parsed of
        None \<Rightarrow> st
      | Some data \<Rightarrow>
          if js_prop data ''type'' = JStr ''server-configs-response'' \<and>
             js_prop data ''requestId'' = JStr (c_requestId c)
          then
            (let st1 = removeEventListener c (clearTimeout c st) in
             if truthy (js_prop data ''error'')
             then reject_new_Error (c_promise c)
                    (js_or (js_prop (js_prop data ''error'') ''message'')
                       (JStr ''Failed to get server configs'')) st1
             else resolve (c_promise c) (js_or (js_prop data ''configs'') (JArr [])) st1)
          else st)"

subsection \<open>What the runtime does with the closures\<close>

text \<open>A call's listener and its timer callback are those of the function that made it.\<close>

definition handleResponse :: "call \<Rightarrow> jsv option \<Rightarrow> int \<Rightarrow> hook \<Rightarrow> hook" where
  "handleResponse c parsed now st =
     (case c_kind c of
        ExecuteTool \<Rightarrow> handleResponse_executeTool c parsed now st
      | ListResources \<Rightarrow> handleResponse_listResources c parsed now st
      | ReadResource \<Rightarrow> handleResponse_readResource c parsed now st
      | ListTools \<Rightarrow> handleResponse_listTools c parsed now st
      | SendCustomMessage \<Rightarrow> handleResponse_sendCustomMessage c parsed now st
      | AddServer \<Rightarrow> handleResponse_addServer c parsed now st
      | RemoveServer \<Rightarrow> handleResponse_removeServer c parsed now st
      | TestConnection \<Rightarrow> handleResponse_testConnection c parsed now st
      | ToggleServer \<Rightarrow> handleResponse_toggleServer c parsed now st
      | GetServerConfigs \<Rightarrow> handleResponse_getServerConfigs c parsed now st)"

definition timeout_callback :: "call \<Rightarrow> int \<Rightarrow> hook \<Rightarrow> hook" where
  "timeout_callback c now st =
     (case c_kind c of
        ExecuteTool \<Rightarrow> timeout_executeTool c st
      | ListResources \<Rightarrow> timeout_listResources c st
      | ReadResource \<Rightarrow> timeout_readResource c now st
      | ListTools \<Rightarrow> timeout_listTools c st
      | SendCustomMessage \<Rightarrow> timeout_sendCustomMessage c now st
      | AddServer \<Rightarrow> timeout_addServer c st
      | RemoveServer \<Rightarrow> timeout_removeServer c st
      | TestConnection \<Rightarrow> timeout_testConnection c st
      | ToggleServer \<Rightarrow> timeout_toggleServer c st
      | GetServerConfigs \<Rightarrow> timeout_getServerConfigs c st)"

text \<open>
  A message event on the socket runs \<^verbatim>\<open>onmessage\<close>, registered first, and then every
  listener attached when the event is dispatched, in the order they were attached.
\<close>

definition deliver :: "jsv option \<Rightarrow> int \<Rightarrow> hook \<Rightarrow> hook" where
  "deliver parsed now st =
     foldl (\<lambda>s c. handleResponse c parsed now s) (onmessage parsed st) (listeners st)"

text \<open>
  The timer of the call that owns promise \<open>p\<close> comes due: its callback runs if the timer
  is still armed, and a timer that has run is no longer armed.
\<close>

definition fire :: "nat \<Rightarrow> int \<Rightarrow> hook \<Rightarrow> hook" where
  "fire p now st =
     (case find (\<lambda>t. c_promise t = p) (timeouts st) of
        None \<Rightarrow> st
      | Some c \<Rightarrow> timeout_callback c now (clearTimeout c st))"

text \<open>The ten commands that return a promise, as requests an observer can make of the hook.\<close>

datatype request =
    ExecuteToolReq string string jsv
  | ListResourcesReq string
  | ReadResourceReq string string
  | ListToolsReq string
  | SendCustomMessageReq jsv "string option"
  | AddServerReq jsv
  | RemoveServerReq string
  | TestConnectionReq jsv
  | ToggleServerReq string bool
  | GetServerConfigsReq

fun issue :: "(jsv \<Rightarrow> string) \<Rightarrow> request \<Rightarrow> int \<Rightarrow> string \<Rightarrow> hook \<Rightarrow> nat \<times> hook" where
  "issue stringify (ExecuteToolReq serverName toolName params) now rnd st =
     executeTool stringify serverName toolName params now rnd st"
| "issue stringify (ListResourcesReq serverName) now rnd st =
     listResources stringify serverName now rnd st"
| "issue stringify (ReadResourceReq serverName uri) now rnd st =
     readResource serverName uri now rnd st"
| "issue stringify (ListToolsReq serverName) now rnd st =
     listTools stringify serverName now rnd st"
| "issue stringify (SendCustomMessageReq message serverName) now rnd st =
     sendCustomMessage message serverName now rnd st"
| "issue stringify (AddServerReq config) now rnd st = addServer config now rnd st"
| "issue stringify (RemoveServerReq serverId) now rnd st = removeServer serverId now rnd st"
| "issue stringify (TestConnectionReq config) now rnd st = testConnection config now rnd st"
| "issue stringify (ToggleServerReq serverId enabled) now rnd st =
     toggleServer serverId enabled now rnd st"
| "issue stringify GetServerConfigsReq now rnd st = getServerConfigs now rnd st"

text \<open>
  What can happen to the hook, one event at a time: a call, a message event, a call's
  timer coming due, and the socket's open and close events, for which the runtime sets
  \<^verbatim>\<open>readyState\<close> before it runs the handler.
\<close>

datatype event =
    Call request int string
  | Message "jsv option" int
  | TimerDue nat int
  | SocketOpened
  | SocketClosed int

fun step :: "(jsv \<Rightarrow> string) \<Rightarrow> hook \<Rightarrow> event \<Rightarrow> hook" where
  "step stringify st (Call req now rnd) = snd (issue stringify req now rnd st)"
| "step stringify st (Message parsed now) = deliver parsed now st"
| "step stringify st (TimerDue p now) = fire p now st"
| "step stringify st SocketOpened = onopen (st\<lparr>ws := map_option (\<lambda>r. OPEN) (ws st)\<rparr>)"
| "step stringify st (SocketClosed code) =
     onclose code (st\<lparr>ws := map_option (\<lambda>r. CLOSED) (ws st)\<rparr>)"

definition run :: "(jsv \<Rightarrow> string) \<Rightarrow> event list \<Rightarrow> hook \<Rightarrow> hook" where
  "run stringify evs st = foldl (step stringify) st evs"

text \<open>
  \<^verbatim>\<open>pairedResponse\<close> of the protocol inspector: the response shown beside a selected
  request is the first logged response whose \<^verbatim>\<open>id\<close> is strictly equal to the request's.
\<close>

fun strict_eq :: "jsv \<Rightarrow> jsv \<Rightarrow> bool" where
  "strict_eq (JArr xs) v = False"
| "strict_eq (JObj kvs) v = False"
| "strict_eq (JDouble a) v = (v = JDouble a \<and> a \<noteq> ''NaN'')"
| "strict_eq u v = (u = v)"

definition pairedResponse :: "jsv \<Rightarrow> jsv list \<Rightarrow> jsv" where
  "pairedResponse message msgs =
     (if \<not> (truthy message \<and> js_prop message ''type'' = JStr ''request'') then JUndefined
      else (case find (\<lambda>msg. js_prop msg ''type'' = JStr ''response'' \<and>
                             strict_eq (js_prop msg ''id'') (js_prop message ''id'')) msgs of
              Some msg \<Rightarrow> msg
            | None \<Rightarrow> JUndefined))"

subsection \<open>Predicates on the hook's state\<close>









subsection \<open>What a call waits for, and what settles it\<close>



text \<open>The delay each command gives \<^verbatim>\<open>setTimeout\<close>, in milliseconds.\<close>

definition timeout_ms :: "call_kind \<Rightarrow> int" where
  "timeout_ms k =
     (case k of
        ExecuteTool \<Rightarrow> 30000
      | SendCustomMessage \<Rightarrow> 15000
      | AddServer \<Rightarrow> 15000
      | _ \<Rightarrow> 10000)"



text \<open>
  The commands of the server manager read \<^verbatim>\<open>data.success\<close> and \<^verbatim>\<open>data.error\<close>; the
  others read \<^verbatim>\<open>data.error\<close> and \<^verbatim>\<open>data.error.message\<close>.
\<close>

definition management :: "call_kind \<Rightarrow> bool" where
  "management k = (k = AddServer \<or> k = RemoveServer \<or> k = TestConnection \<or> k = ToggleServer)"







text \<open>The commands that register their promise in \<open>ongoingRequests\<close>.\<close>

definition deduplicates :: "call_kind \<Rightarrow> bool" where
  "deduplicates k = (k = ListResources \<or> k = ListTools)"



text \<open>
  The three ways a call begins: answered from the cache, joined to a call in flight, or
  sent to the backend. A \<^verbatim>\<open>sendCustomMessage\<close> whose executor throws begins in none of them.
\<close>

fun kind_of :: "request \<Rightarrow> call_kind" where
  "kind_of (ExecuteToolReq serverName toolName params) = ExecuteTool"
| "kind_of (ListResourcesReq serverName) = ListResources"
| "kind_of (ReadResourceReq serverName uri) = ReadResource"
| "kind_of (ListToolsReq serverName) = ListTools"
| "kind_of (SendCustomMessageReq message serverName) = SendCustomMessage"
| "kind_of (AddServerReq config) = AddServer"
| "kind_of (RemoveServerReq serverId) = RemoveServer"
| "kind_of (TestConnectionReq config) = TestConnection"
| "kind_of (ToggleServerReq serverId enabled) = ToggleServer"
| "kind_of GetServerConfigsReq = GetServerConfigs"

fun request_key :: "(jsv \<Rightarrow> string) \<Rightarrow> request \<Rightarrow> string" where
  "request_key sfy (ExecuteToolReq serverName toolName params) =
     createRequestKey sfy ''executeTool'' serverName
       (JObj [(''toolName'', JStr toolName), (''params'', params)])"
| "request_key sfy (ListResourcesReq serverName) =
     createRequestKey sfy ''listResources'' serverName JUndefined"
| "request_key sfy (ListToolsReq serverName) =
     createRequestKey sfy ''listTools'' serverName JUndefined"
| "request_key sfy req = []"

fun cache_hit :: "(jsv \<Rightarrow> string) \<Rightarrow> request \<Rightarrow> int \<Rightarrow> hook \<Rightarrow> bool" where
  "cache_hit sfy (ExecuteToolReq serverName toolName params) now st =
     (truthy (getCachedResult
                (request_key sfy (ExecuteToolReq serverName toolName params)) now st) \<and>
      (case requestCache st (request_key sfy (ExecuteToolReq serverName toolName params)) of
         Some (result, timestamp) \<Rightarrow> now - timestamp < 500 | None \<Rightarrow> False))"
| "cache_hit sfy (ListResourcesReq serverName) now st =
     truthy (getCachedResult (request_key sfy (ListResourcesReq serverName)) now st)"
| "cache_hit sfy (ListToolsReq serverName) now st =
     truthy (getCachedResult (request_key sfy (ListToolsReq serverName)) now st)"
| "cache_hit sfy req now st = False"

fun joined :: "(jsv \<Rightarrow> string) \<Rightarrow> request \<Rightarrow> hook \<Rightarrow> bool" where
  "joined sfy (ListResourcesReq serverName) st =
     (ongoingRequests st (request_key sfy (ListResourcesReq serverName)) \<noteq> None)"
| "joined sfy (ListToolsReq serverName) st =
     (ongoingRequests st (request_key sfy (ListToolsReq serverName)) \<noteq> None)"
| "joined sfy req st = False"

fun executor_throws :: "request \<Rightarrow> bool" where
  "executor_throws (SendCustomMessageReq message serverName) =
     (nullish message \<or> \<not> convertible (js_prop message ''method''))"
| "executor_throws req = False"

definition to_backend :: "(jsv \<Rightarrow> string) \<Rightarrow> request \<Rightarrow> int \<Rightarrow> hook \<Rightarrow> bool" where
  "to_backend sfy req now st =
     (\<not> cache_hit sfy req now st \<and> \<not> joined sfy req st \<and> \<not> executor_throws req)"

subsection \<open>The requests sent\<close>

text \<open>The \<^verbatim>\<open>list-tools\<close> messages sent for one server, in order.\<close>

definition list_tools_sent :: "string \<Rightarrow> hook \<Rightarrow> jsv list" where
  "list_tools_sent serverName st =
     filter (\<lambda>m. js_prop m ''type'' = JStr ''list-tools'' \<and>
                 js_prop m ''serverName'' = JStr serverName) (sent st)"


section \<open>The calculator server\<close>

text \<open>
  A thrown \<^verbatim>\<open>Error\<close>, held by its message. Everything thrown in the handler is an
  \<^verbatim>\<open>Error\<close>: the handler's own \<^verbatim>\<open>new Error(...)\<close>, or a \<^verbatim>\<open>TypeError\<close> of the runtime.
\<close>

datatype js_error = Error string

text \<open>
  Arithmetic and printing. On integers that a double holds exactly the operators are
  computed here; everything else (fractions, \<^verbatim>\<open>NaN\<close>, infinities, strings, objects,
  \<^verbatim>\<open>Math.pow\<close>, \<^verbatim>\<open>Math.sqrt\<close>) is the runtime's floating point and coercion, taken as the
  parameter \<open>rt\<close>, each operation returning a value or throwing. Negative zero is
  \<open>JDouble ''-0''\<close>.
\<close>

record js_runtime =
  rt_add :: "jsv \<Rightarrow> jsv \<Rightarrow> js_error + jsv"
  rt_sub :: "jsv \<Rightarrow> jsv \<Rightarrow> js_error + jsv"
  rt_mul :: "jsv \<Rightarrow> jsv \<Rightarrow> js_error + jsv"
  rt_div :: "jsv \<Rightarrow> jsv \<Rightarrow> js_error + jsv"
  rt_pow :: "jsv \<Rightarrow> jsv \<Rightarrow> js_error + jsv"
  rt_sqrt :: "jsv \<Rightarrow> js_error + jsv"
  rt_lt0 :: "jsv \<Rightarrow> js_error + bool"
  rt_to_string :: "jsv \<Rightarrow> js_error + string"

definition safe :: "int \<Rightarrow> bool" where
  "safe n = (\<bar>n\<bar> \<le> 9007199254740992)"

definition js_add :: "js_runtime \<Rightarrow> jsv \<Rightarrow> jsv \<Rightarrow> js_error + jsv" where
  "js_add rt a b =
     (case (a, b) of
        (JNum x, JNum y) \<Rightarrow>
          if safe x \<and> safe y \<and> safe (x + y) then Inr (JNum (x + y)) else rt_add rt a b
      | _ \<Rightarrow> rt_add rt a b)"

definition js_sub :: "js_runtime \<Rightarrow> jsv \<Rightarrow> jsv \<Rightarrow> js_error + jsv" where
  "js_sub rt a b =
     (case (a, b) of
        (JNum x, JNum y) \<Rightarrow>
          if safe x \<and> safe y \<and> safe (x - y) then Inr (JNum (x - y)) else rt_sub rt a b
      | _ \<Rightarrow> rt_sub rt a b)"

definition js_mul :: "js_runtime \<Rightarrow> jsv \<Rightarrow> jsv \<Rightarrow> js_error + jsv" where
  "js_mul rt a b =
     (case (a, b) of
        (JNum x, JNum y) \<Rightarrow>
          if safe x \<and> safe y \<and> safe (x * y)
          then (if x * y = 0 \<and> (x < 0 \<or> y < 0) then Inr (JDouble ''-0'')
                else Inr (JNum (x * y)))
          else rt_mul rt a b
      | _ \<Rightarrow> rt_mul rt a b)"

definition js_div :: "js_runtime \<Rightarrow> jsv \<Rightarrow> jsv \<Rightarrow> js_error + jsv" where
  "js_div rt a b =
     (case (a, b) of
        (JNum x, JNum y) \<Rightarrow>
          if safe x \<and> safe y \<and> y \<noteq> 0 \<and> y dvd x
          then (if x = 0 \<and> y < 0 then Inr (JDouble ''-0'') else Inr (JNum (x div y)))
          else rt_div rt a b
      | _ \<Rightarrow> rt_div rt a b)"

text \<open>\<^verbatim>\<open>b === 0\<close>: no coercion; both zeros are equal to \<^verbatim>\<open>0\<close>.\<close>

definition js_is_zero :: "jsv \<Rightarrow> bool" where
  "js_is_zero v = (v = JNum 0 \<or> v = JDouble ''-0'')"

text \<open>\<^verbatim>\<open>number < 0\<close>.\<close>

fun js_lt0 :: "js_runtime \<Rightarrow> jsv \<Rightarrow> js_error + bool" where
  "js_lt0 rt (JNum n) = Inr (n < 0)"
| "js_lt0 rt (JDouble s) = Inr (take 1 s = ''-'' \<and> s \<noteq> ''-0'')"
| "js_lt0 rt JUndefined = Inr False"
| "js_lt0 rt JNull = Inr False"
| "js_lt0 rt (JBool b) = Inr False"
| "js_lt0 rt v = rt_lt0 rt v"

text \<open>
  A value inside a template literal. An integer that a double holds exactly prints as
  its decimal digits; beyond that range the digits are the runtime's.
\<close>

fun js_to_string :: "js_runtime \<Rightarrow> jsv \<Rightarrow> js_error + string" where
  "js_to_string rt JUndefined = Inr ''undefined''"
| "js_to_string rt JNull = Inr ''null''"
| "js_to_string rt (JBool b) = Inr (if b then ''true'' else ''false'')"
| "js_to_string rt (JNum n) =
     (if safe n then Inr (show_int n) else rt_to_string rt (JNum n))"
| "js_to_string rt (JDouble s) = Inr (if s = ''-0'' then ''0'' else s)"
| "js_to_string rt (JStr s) = Inr s"
| "js_to_string rt v = rt_to_string rt v"

text \<open>Sequencing: an exception skips the rest of the \<^verbatim>\<open>try\<close> block.\<close>

definition and_then :: "js_error + 'a \<Rightarrow> ('a \<Rightarrow> js_error + 'b) \<Rightarrow> js_error + 'b" where
  "and_then r f = (case r of Inl e \<Rightarrow> Inl e | Inr v \<Rightarrow> f v)"

text \<open>The two shapes of result the handler builds.\<close>

definition text_result :: "string \<Rightarrow> jsv" where
  "text_result t =
     JObj [(''content'', JArr [JObj [(''type'', JStr ''text''), (''text'', JStr t)]])]"

definition error_result :: "string \<Rightarrow> jsv" where
  "error_result m =
     JObj [(''content'',
            JArr [JObj [(''type'', JStr ''text''), (''text'', JStr (''Error: '' @ m))]]),
           (''isError'', JBool True)]"

text \<open>
  A binary tool: the operands are read, the result computed, and the three values
  printed into the text, the operator sign between the first two. The signs of
  \<^verbatim>\<open>multiply\<close>, \<^verbatim>\<open>divide\<close> and \<^verbatim>\<open>sqrt\<close> are outside ASCII and given by their UTF-8 bytes.
\<close>

definition binary_text ::
  "js_runtime \<Rightarrow> string \<Rightarrow> jsv \<Rightarrow> jsv \<Rightarrow> jsv \<Rightarrow> js_error + jsv" where
  "binary_text rt sign a b result =
     and_then (js_to_string rt a) (\<lambda>sa.
     and_then (js_to_string rt b) (\<lambda>sb.
     and_then (js_to_string rt result) (\<lambda>sr.
     Inr (text_result (sa @ sign @ sb @ '' = '' @ sr)))))"

definition times_sign :: string where
  "times_sign = [CHR 0xC3, CHR 0x97]"

definition division_sign :: string where
  "division_sign = [CHR 0xC3, CHR 0xB7]"

definition root_sign :: string where
  "root_sign = [CHR 0xE2, CHR 0x88, CHR 0x9A]"

text \<open>The \<^verbatim>\<open>try\<close> block of the \<^verbatim>\<open>CallToolRequestSchema\<close> handler.\<close>

definition callTool_try :: "js_runtime \<Rightarrow> string \<Rightarrow> jsv \<Rightarrow> js_error + jsv" where
  "callTool_try rt name args =
     (if \<not> truthy args then Inl (Error ''Arguments are required'')
      else if name = ''add'' then
        (let a = js_prop args ''a''; b = js_prop args ''b'' in
         and_then (js_add rt a b) (\<lambda>result. binary_text rt '' + '' a b result))
      else if name = ''subtract'' then
        (let a = js_prop args ''a''; b = js_prop args ''b'' in
         and_then (js_sub rt a b) (\<lambda>result. binary_text rt '' - '' a b result))
      else if name = ''multiply'' then
        (let a = js_prop args ''a''; b = js_prop args ''b'' in
         and_then (js_mul rt a b)
           (\<lambda>result. binary_text rt ('' '' @ times_sign @ '' '') a b result))
      else if name = ''divide'' then
        (let a = js_prop args ''a''; b = js_prop args ''b'' in
         if js_is_zero b then Inl (Error ''Division by zero is not allowed'')
         else and_then (js_div rt a b)
                (\<lambda>result. binary_text rt ('' '' @ division_sign @ '' '') a b result))
      else if name = ''power'' then
        (let base = js_prop args ''base''; exponent = js_prop args ''exponent'' in
         and_then (rt_pow rt base exponent) (\<lambda>result.
         and_then (js_to_string rt base) (\<lambda>sb.
         and_then (js_to_string rt exponent) (\<lambda>se.
         and_then (js_to_string rt result) (\<lambda>sr.
         Inr (text_result (sb @ ''^'' @ se @ '' = '' @ sr)))))))
      else if name = ''sqrt'' then
        (let number = js_prop args ''number'' in
         and_then (js_lt0 rt number) (\<lambda>negative.
         if negative then Inl (Error ''Cannot calculate square root of negative number'')
         else and_then (rt_sqrt rt number) (\<lambda>result.
              and_then (js_to_string rt number) (\<lambda>sn.
              and_then (js_to_string rt result) (\<lambda>sr.
              Inr (text_result (root_sign @ sn @ '' = '' @ sr)))))))
      else Inl (Error (''Unknown tool: '' @ name)))"

text \<open>
  The handler: the \<^verbatim>\<open>try\<close> block and its \<^verbatim>\<open>catch\<close>. \<open>Inl\<close> would be an exception leaving
  the handler.
\<close>

definition callTool :: "js_runtime \<Rightarrow> string \<Rightarrow> jsv \<Rightarrow> js_error + jsv" where
  "callTool rt name args =
     (case callTool_try rt name args of
        Inr result \<Rightarrow> Inr result
      | Inl (Error message) \<Rightarrow> Inr (error_result message))"

section \<open>The hub: \<^verbatim>\<open>MCPClient\<close>\<close>

text \<open>
  A connected server as the hub holds it: the \<open>connected\<close> flag and the SDK client's
  original \<^verbatim>\<open>callTool\<close>, which sends \<^verbatim>\<open>{name, arguments}\<close> to the backend and returns its
  result or throws.
\<close>

record mcp_server =
  srv_connected :: bool
  srv_callTool :: "jsv \<Rightarrow> js_error + jsv"

text \<open>\<open>broadcasts\<close> are the \<^verbatim>\<open>new-message\<close> pushes sent to the dashboards, in order.\<close>

record mcp_client =
  srv_map :: "string \<rightharpoonup> mcp_server"
  messageHistory :: "jsv list"
  messageIdCounter :: nat
  broadcasts :: "jsv list"

definition logMessage :: "jsv \<Rightarrow> mcp_client \<Rightarrow> mcp_client" where
  "logMessage message cl =
     (let h = messageHistory cl @ [message];
          h' = (if length h > 100 then slice_last 100 h else h)
      in cl\<lparr>messageHistory := h',
             broadcasts := broadcasts cl @ [new_message message]\<rparr>)"

text \<open>A run of events logged by the hub, oldest first.\<close>

definition logs :: "jsv list \<Rightarrow> mcp_client \<Rightarrow> mcp_client" where
  "logs ms cl = foldl (\<lambda>c m. logMessage m c) cl ms"

text \<open>
  The wrapper the hub installs over \<^verbatim>\<open>client.callTool\<close>: the request and its response are
  logged under one id, the incremented \<open>messageIdCounter\<close>. \<open>now\<close> is the time of the call,
  \<open>later\<close> the time the backend has answered.
\<close>

definition client_callTool ::
  "string \<Rightarrow> mcp_server \<Rightarrow> jsv \<Rightarrow> int \<Rightarrow> int \<Rightarrow> mcp_client \<Rightarrow> (js_error + jsv) \<times> mcp_client" where
  "client_callTool serverName server request now later cl =
     (let cl1 = cl\<lparr>messageIdCounter := messageIdCounter cl + 1\<rparr>;
          requestId = show_int (int (messageIdCounter cl1));
          cl2 = logMessage
                  (JObj [(''id'', JStr requestId), (''timestamp'', JNum now),
                         (''type'', JStr ''request''), (''method'', JStr ''tools/call''),
                         (''params'', request), (''result'', JUndefined),
                         (''error'', JUndefined), (''serverName'', JStr serverName),
                         (''direction'', JStr ''client-to-server'')]) cl1
      in case srv_callTool server request of
           Inr response \<Rightarrow>
             (Inr response,
              logMessage
                (JObj [(''id'', JStr requestId), (''timestamp'', JNum later),
                       (''type'', JStr ''response''), (''method'', JStr ''tools/call''),
                       (''params'', request), (''result'', response),
                       (''error'', JUndefined), (''serverName'', JStr serverName),
                       (''direction'', JStr ''server-to-client'')]) cl2)
         | Inl (Error message) \<Rightarrow>
             (Inl (Error message),
              logMessage
                (JObj [(''id'', JStr requestId), (''timestamp'', JNum later),
                       (''type'', JStr ''response''), (''method'', JStr ''tools/call''),
                       (''params'', request), (''result'', JUndefined),
                       (''error'', JObj [(''message'', JStr message)]),
                       (''serverName'', JStr serverName),
                       (''direction'', JStr ''server-to-client'')]) cl2))"

text \<open>
  \<^verbatim>\<open>executeToolFromDashboard\<close>, for a dashboard socket whose \<^verbatim>\<open>readyState\<close> is
  \<open>ready\<close>: the replies sent on that socket, and the hub afterwards.
\<close>

definition executeToolFromDashboard ::
  "ready_state \<Rightarrow> jsv \<Rightarrow> string \<Rightarrow> string \<Rightarrow> jsv \<Rightarrow> int \<Rightarrow> int \<Rightarrow> mcp_client
     \<Rightarrow> jsv list \<times> mcp_client" where
  "executeToolFromDashboard ready requestId serverName toolName params now later cl =
     (case srv_map cl serverName of
        None \<Rightarrow>
          (if ready = OPEN
           then [JObj [(''type'', JStr ''tool-response''), (''requestId'', requestId),
                       (''error'', JObj [(''message'',
                          JStr (''Server '' @ serverName @ '' not found''))])]]
           else [], cl)
      | Some server \<Rightarrow>
          if \<not> srv_connected server then
            (if ready = OPEN
             then [JObj [(''type'', JStr ''tool-response''), (''requestId'', requestId),
                         (''error'', JObj [(''message'',
                            JStr (''Server '' @ serverName @ '' is not connected''))])]]
             else [], cl)
          else
            (case client_callTool serverName server
                    (JObj [(''name'', JStr toolName), (''arguments'', params)]) now later cl of
               (Inr result, cl') \<Rightarrow>
                 (if ready = OPEN
                  then [JObj [(''type'', JStr ''tool-response''), (''requestId'', requestId),
                              (''result'', result)]]
                  else [], cl')
             | (Inl (Error message), cl') \<Rightarrow>
                 (if ready = OPEN
                  then [JObj [(''type'', JStr ''tool-response''), (''requestId'', requestId),
                              (''error'', JObj [(''message'', JStr message)])]]
                  else [], cl')))"

text \<open>
  The calculator server behind the SDK's transport: the request's \<^verbatim>\<open>name\<close> and
  \<^verbatim>\<open>arguments\<close> reach the handler and its result comes back unchanged. The SDK checks the
  request against \<^verbatim>\<open>CallToolRequestSchema\<close> first, so a name that is not a string, and
  arguments that are neither absent nor an object, never reach the handler.
\<close>

definition calculator_backend :: "js_runtime \<Rightarrow> jsv \<Rightarrow> js_error + jsv" where
  "calculator_backend rt request =
     (case js_prop request ''name'' of
        JStr name \<Rightarrow>
          (case js_prop request ''arguments'' of
             JObj kvs \<Rightarrow> callTool rt name (JObj kvs)
           | JUndefined \<Rightarrow> callTool rt name JUndefined
           | _ \<Rightarrow> Inl (Error ''Invalid request''))
      | _ \<Rightarrow> Inl (Error ''Invalid request''))"

text \<open>The hub with \<^verbatim>\<open>calculator-server\<close> connected and nothing logged yet.\<close>

definition calculator_hub :: "js_runtime \<Rightarrow> mcp_client" where
  "calculator_hub rt =
     \<lparr>srv_map = [''calculator-server'' \<mapsto>
                   \<lparr>srv_connected = True, srv_callTool = calculator_backend rt\<rparr>],
      messageHistory = [], messageIdCounter = 0, broadcasts = []\<rparr>"

text \<open>A runtime in which every operation left to it throws.\<close>

definition throwing_runtime :: js_runtime where
  "throwing_runtime =
     \<lparr>rt_add = (\<lambda>a b. Inl (Error ''TypeError'')), rt_sub = (\<lambda>a b. Inl (Error ''TypeError'')),
      rt_mul = (\<lambda>a b. Inl (Error ''TypeError'')), rt_div = (\<lambda>a b. Inl (Error ''TypeError'')),
      rt_pow = (\<lambda>a b. Inl (Error ''TypeError'')), rt_sqrt = (\<lambda>a. Inl (Error ''TypeError'')),
      rt_lt0 = (\<lambda>a. Inl (Error ''TypeError'')),
      rt_to_string = (\<lambda>a. Inl (Error ''TypeError''))\<rparr>"

text \<open>The state \<^verbatim>\<open>useWebSocket\<close> starts from, before the first \<^verbatim>\<open>connect\<close>.\<close>

definition initial_hook :: hook where
  "initial_hook =
     \<lparr>servers = JArr [], messages = [], connected = False, reconnectAttempts = 0,
      isConnecting = False, reconnectTimeouts = [], ws = None, listeners = [],
      timeouts = [], promises = [], ongoingRequests = Map.empty,
      requestCache = Map.empty, sent = []\<rparr>"

text \<open>The hook with its socket open and nothing else done yet.\<close>

definition open_hook :: hook where
  "open_hook = initial_hook\<lparr>ws := Some OPEN\<rparr>"

section \<open>Decimal rendering, evaluated on integers\<close>

lemma int_digits_digits: "0 \<le> i \<Longrightarrow> int_digits i = digits (nat i)"
proof (induction i rule: int_digits.induct)
  case (1 i)
  show ?case
  proof (cases "i < 10")
    case True
    then have n: "nat i < 10" using 1(2) by simp
    have "int_digits i = [digit_char (nat i)]"
      using True by (subst int_digits.simps) simp
    moreover have "digits (nat i) = [digit_char (nat i)]"
      using n by (subst digits.simps) simp
    ultimately show ?thesis by simp
  next
    case False
    then have n: "\<not> nat i < 10" by simp
    have "0 \<le> i div 10" using 1(2) by (simp add: pos_imp_zdiv_nonneg_iff)
    with False 1(1) have ih: "int_digits (i div 10) = digits (nat (i div 10))" by simp
    have d: "nat (i div 10) = nat i div 10" and m: "nat (i mod 10) = nat i mod 10"
      using 1(2) by (simp_all add: nat_div_distrib nat_mod_distrib)
    have "int_digits i = int_digits (i div 10) @ [digit_char (nat (i mod 10))]"
      using False by (subst int_digits.simps) simp
    moreover have "digits (nat i) = digits (nat i div 10) @ [digit_char (nat i mod 10)]"
      using n by (subst digits.simps) simp
    ultimately show ?thesis by (simp add: ih d m)
  qed
qed

lemma show_int_code [code]:
  "show_int i = (if i < 0 then CHR ''-'' # int_digits (- i) else int_digits i)"
  by (simp add: show_int_def int_digits_digits)

section \<open>The message log keeps the last 100 events\<close>

lemma slice_last_length: "length (slice_last n xs) = min (length xs) n"
  by (simp add: slice_last_def)

lemma slice_last_snoc:
  assumes "0 < n"
  shows "slice_last n (slice_last n xs @ [x]) = slice_last n (xs @ [x])"
proof -
  have "Suc (length xs) - (length xs - n + n) + (length xs - n) = Suc (length xs) - n"
    using assms by arith
  then show ?thesis using assms by (auto simp: slice_last_def)
qed

lemma onmessage_new_message:
  "\<not> nullish m \<Longrightarrow>
   onmessage (Some (new_message m)) st = st\<lparr>messages := slice_last 100 (messages st @ [m])\<rparr>"
  by (simp add: onmessage_def new_message_def)

lemma pushes_snoc: "pushes (ms @ [m]) st = onmessage (Some (new_message m)) (pushes ms st)"
  by (simp add: pushes_def)

lemma pushes_messages:
  "\<forall>m\<in>set ms. \<not> nullish m \<Longrightarrow> ms \<noteq> [] \<Longrightarrow>
   messages (pushes ms st) = slice_last 100 (messages st @ ms)"
proof (induction ms rule: rev_induct)
  case Nil
  then show ?case by simp
next
  case (snoc m ms)
  show ?case
  proof (cases "ms = []")
    case True
    with snoc.prems show ?thesis
      by (simp add: pushes_def onmessage_new_message)
  next
    case False
    with snoc have "messages (pushes ms st) = slice_last 100 (messages st @ ms)" by simp
    with snoc.prems show ?thesis
      using slice_last_snoc [of 100 "messages st @ ms" m]
      by (simp add: pushes_snoc onmessage_new_message)
  qed
qed

lemma logMessage_history:
  "messageHistory (logMessage m cl) = slice_last 100 (messageHistory cl @ [m])"
  by (simp add: logMessage_def Let_def slice_last_def)

lemma logs_snoc: "logs (ms @ [m]) cl = logMessage m (logs ms cl)"
  by (simp add: logs_def)

lemma logs_history:
  "ms \<noteq> [] \<Longrightarrow> messageHistory (logs ms cl) = slice_last 100 (messageHistory cl @ ms)"
proof (induction ms rule: rev_induct)
  case Nil
  then show ?case by simp
next
  case (snoc m ms)
  show ?case
  proof (cases "ms = []")
    case True
    then show ?thesis by (simp add: logs_def logMessage_history)
  next
    case False
    with snoc have "messageHistory (logs ms cl) = slice_last 100 (messageHistory cl @ ms)"
      by simp
    then show ?thesis
      using slice_last_snoc [of 100 "messageHistory cl @ ms" m]
      by (simp add: logs_snoc logMessage_history)
  qed
qed

text \<open>
  C7. Whatever the dashboard's log held before, after any non-empty run of
  \<^verbatim>\<open>new-message\<close> pushes the log is the last 100 entries of the old log followed by the
  pushed events: its length is the smaller of 100 and the old length plus the number
  pushed, and what is missing is a prefix, the oldest entries. The hub's own
  \<open>messageHistory\<close>, from which the pushes come, is kept the same way by \<^verbatim>\<open>logMessage\<close>.
\<close>

theorem message_log_keeps_last_100:
  assumes "\<forall>m\<in>set ms. \<not> nullish m" and "ms \<noteq> []"
  shows "messages (pushes ms st) = slice_last 100 (messages st @ ms)
       \<and> length (messages (pushes ms st)) = min (length (messages st) + length ms) 100
       \<and> messages (pushes ms st) = drop (length (messages st) + length ms - 100) (messages st @ ms)
       \<and> messageHistory (logs ms cl) = slice_last 100 (messageHistory cl @ ms)
       \<and> length (messageHistory (logs ms cl)) = min (length (messageHistory cl) + length ms) 100"
  using pushes_messages [OF assms, of st] logs_history [OF assms(2), of cl]
  by (simp add: slice_last_length) (simp add: slice_last_def)

theorem message_log_keeps_last_100_witness:
  "\<not> nullish (JStr ''a'') \<and> \<not> nullish (JStr ''b'') \<and> [JStr ''a'', JStr ''b''] \<noteq> []
   \<and> messages (pushes [JStr ''a'', JStr ''b''] (initial_hook\<lparr>messages := replicate 99 JNull\<rparr>))
       = replicate 98 JNull @ [JStr ''a'', JStr ''b'']
   \<and> length (messages (pushes [JStr ''a'', JStr ''b''] (initial_hook\<lparr>messages := replicate 99 JNull\<rparr>))) = 100"
proof -
  have h: "\<forall>m\<in>set [JStr ''a'', JStr ''b'']. \<not> nullish m" by (simp add: nullish_def)
  have r: "replicate 99 JNull = JNull # replicate 98 JNull"
    by (simp add: replicate_Suc [symmetric] del: replicate_Suc)
  show ?thesis
    using h message_log_keeps_last_100 [OF h, of "initial_hook\<lparr>messages := replicate 99 JNull\<rparr>"]
    by (simp add: r slice_last_def)
qed

section \<open>Reconnect backoff\<close>

lemma onclose_attempts:
  "reconnectAttempts (onclose code st) =
     (if code \<noteq> 1000 \<and> reconnectAttempts st < 5 then reconnectAttempts st + 1
      else reconnectAttempts st)"
  by (simp add: onclose_def maxReconnectAttempts_def Let_def)

lemma onclose_timeouts:
  "reconnectTimeouts (onclose code st) =
     (if code \<noteq> 1000 \<and> reconnectAttempts st < 5
      then reconnectTimeouts st @ [min (2000 + reconnectAttempts st * 1000) 10000]
      else reconnectTimeouts st)"
  by (simp add: onclose_def maxReconnectAttempts_def Let_def)

lemma onclose_connected: "\<not> connected (onclose code st)"
  by (simp add: onclose_def maxReconnectAttempts_def Let_def)

lemma closes_Cons: "closes (c # cs) st = closes cs (onclose c st)"
  by (simp add: closes_def)

lemma closes_snoc: "closes (cs @ [c]) st = onclose c (closes cs st)"
  by (simp add: closes_def)

lemma closes_attempts:
  "reconnectAttempts (closes codes st) =
     max (reconnectAttempts st)
       (min (reconnectAttempts st + length (filter (\<lambda>c. c \<noteq> 1000) codes)) 5)"
proof (induction codes arbitrary: st)
  case Nil
  then show ?case by (simp add: closes_def)
next
  case (Cons c cs)
  show ?case
    by (simp only: closes_Cons Cons.IH onclose_attempts) auto
qed

lemma closes_timeouts:
  "reconnectTimeouts (closes codes st) =
     reconnectTimeouts st @
     map (\<lambda>k. min (2000 + k * 1000) 10000)
       [reconnectAttempts st ..<
        min (reconnectAttempts st + length (filter (\<lambda>c. c \<noteq> 1000) codes)) 5]"
proof (induction codes arbitrary: st)
  case Nil
  then show ?case by (simp add: closes_def)
next
  case (Cons c cs)
  let ?a = "reconnectAttempts st"
  let ?n = "length (filter (\<lambda>c. c \<noteq> 1000) cs)"
  show ?case
  proof (cases "c \<noteq> 1000 \<and> ?a < 5")
    case True
    then have "?a < min (?a + Suc ?n) 5" by arith
    then have "[?a ..< min (?a + Suc ?n) 5] = ?a # [Suc ?a ..< min (?a + Suc ?n) 5]"
      by (rule upt_conv_Cons)
    moreover have "min (Suc ?a + ?n) 5 = min (?a + Suc ?n) 5" by arith
    moreover have "length (filter (\<lambda>c. c \<noteq> 1000) (c # cs)) = Suc ?n"
      using True by simp
    moreover have "reconnectAttempts (onclose c st) = Suc ?a"
      and "reconnectTimeouts (onclose c st) = reconnectTimeouts st @ [min (2000 + ?a * 1000) 10000]"
      using True by (simp_all add: onclose_attempts onclose_timeouts)
    ultimately show ?thesis
      by (simp only: closes_Cons Cons.IH list.map append_assoc append_Cons append_Nil)
  next
    case False
    then have "[?a ..< min (?a + length (filter (\<lambda>c. c \<noteq> 1000) (c # cs))) 5]
             = [?a ..< min (?a + ?n) 5]"
      by auto
    with False show ?thesis
      by (simp only: closes_Cons Cons.IH onclose_attempts onclose_timeouts if_False)
  qed
qed

lemma backoff_sorted: "sorted (map (\<lambda>k::nat. min (2000 + k * 1000) (10000::nat)) [a ..< b])"
proof -
  have "sorted_wrt (\<lambda>x y::nat. min (2000 + x * 1000) (10000::nat) \<le> min (2000 + y * 1000) 10000) [a ..< b]"
    by (rule sorted_wrt_mono_rel [OF _ sorted_wrt_upt]) auto
  then show ?thesis by (simp add: sorted_wrt_map)
qed

text \<open>
  C3. A close with a code other than 1000, while the attempt count \<open>k\<close> is below
  \<open>maxReconnectAttempts\<close>, schedules exactly one reconnect timer, with delay
  \<open>min (2000 + k * 1000) 10000\<close> milliseconds, and raises the count to \<open>k + 1\<close>; any other
  close schedules nothing and keeps the count. Hence over a run of close events, of
  which \<open>n\<close> have a code other than 1000, starting at count \<open>a\<close>, the timers scheduled
  are, in order, one for each count from \<open>a\<close> up to \<open>min (a + n) maxReconnectAttempts\<close>,
  each with the delay of its count; the delays are non-decreasing and none exceeds 10000.
\<close>

theorem reconnect_delay_schedule:
  "reconnectTimeouts (onclose code st) =
     (if code \<noteq> 1000 \<and> reconnectAttempts st < maxReconnectAttempts
      then reconnectTimeouts st @ [min (2000 + reconnectAttempts st * 1000) 10000]
      else reconnectTimeouts st)
   \<and> reconnectAttempts (onclose code st) =
     (if code \<noteq> 1000 \<and> reconnectAttempts st < maxReconnectAttempts
      then reconnectAttempts st + 1 else reconnectAttempts st)
   \<and> reconnectTimeouts (closes codes st) =
     reconnectTimeouts st @
     map (\<lambda>k. min (2000 + k * 1000) 10000)
       [reconnectAttempts st ..<
        min (reconnectAttempts st + length (filter (\<lambda>c. c \<noteq> 1000) codes))
          maxReconnectAttempts]
   \<and> reconnectAttempts (closes codes st) =
     max (reconnectAttempts st)
       (min (reconnectAttempts st + length (filter (\<lambda>c. c \<noteq> 1000) codes))
          maxReconnectAttempts)
   \<and> sorted (map (\<lambda>k. min (2000 + k * 1000) 10000)
       [reconnectAttempts st ..<
        min (reconnectAttempts st + length (filter (\<lambda>c. c \<noteq> 1000) codes))
          maxReconnectAttempts])
   \<and> list_all (\<lambda>d. d \<le> 10000) (map (\<lambda>k. min (2000 + k * 1000) 10000)
       [reconnectAttempts st ..<
        min (reconnectAttempts st + length (filter (\<lambda>c. c \<noteq> 1000) codes))
          maxReconnectAttempts])"
proof -
  let ?a = "reconnectAttempts st"
  let ?n = "length (filter (\<lambda>c. c \<noteq> 1000) codes)"
  have "list_all (\<lambda>d. d \<le> 10000) (map (\<lambda>k. min (2000 + k * 1000) (10000::nat)) [?a ..< min (?a + ?n) 5])"
    by (simp add: list_all_iff)
  then show ?thesis
    using onclose_timeouts [of code st] onclose_attempts [of code st]
      closes_timeouts [of codes st] closes_attempts [of codes st]
      backoff_sorted [of ?a "min (?a + ?n) 5"]
    by (simp only: maxReconnectAttempts_def simp_thms)
qed

theorem reconnect_delay_schedule_witness:
  "reconnectTimeouts (onclose 1006 (closes [1006, 1006] initial_hook)) = [2000, 3000, 4000]
   \<and> reconnectAttempts (onclose 1006 (closes [1006, 1006] initial_hook)) = 3
   \<and> reconnectTimeouts (closes [1006, 1000, 1006, 1001, 1006, 1006, 1006] initial_hook)
       = [2000, 3000, 4000, 5000, 6000]
   \<and> reconnectAttempts (closes [1006, 1000, 1006, 1001, 1006, 1006, 1006] initial_hook) = 5"
proof -
  have i: "reconnectAttempts initial_hook = 0" "reconnectTimeouts initial_hook = []"
    by (simp_all add: initial_hook_def)
  have u: "[0 ..< 5] = [0, 1, 2, 3, 4]" "[0 ..< 2] = [0, Suc 0]"
    by (simp_all add: upt_rec)
  have two: "reconnectAttempts (closes [1006, 1006] initial_hook) = 2
           \<and> reconnectTimeouts (closes [1006, 1006] initial_hook) = [2000, 3000]"
    using reconnect_delay_schedule [of 1006 initial_hook "[1006, 1006]"]
    by (simp add: i u maxReconnectAttempts_def)
  show ?thesis
    using reconnect_delay_schedule
            [of 1006 "closes [1006, 1006] initial_hook"
                "[1006, 1000, 1006, 1001, 1006, 1006, 1006]"]
          reconnect_delay_schedule
            [of 1006 initial_hook "[1006, 1000, 1006, 1001, 1006, 1006, 1006]"]
    by (simp add: i u two maxReconnectAttempts_def)
qed

text \<open>
  C4. Once the attempt count has reached \<open>maxReconnectAttempts\<close>, no run of close events
  schedules another timer: the timers are those already scheduled, the count stays at the
  maximum, and after any close the hook reports itself disconnected.
\<close>

theorem no_sixth_reconnect_attempt:
  assumes "reconnectAttempts st = maxReconnectAttempts"
  shows "reconnectTimeouts (closes codes st) = reconnectTimeouts st
       \<and> reconnectAttempts (closes codes st) = maxReconnectAttempts
       \<and> (codes \<noteq> [] \<longrightarrow> \<not> connected (closes codes st))"
proof -
  have "codes \<noteq> [] \<longrightarrow> \<not> connected (closes codes st)"
    by (cases codes rule: rev_cases) (simp_all add: closes_snoc onclose_connected)
  with assms show ?thesis
    by (simp add: closes_timeouts closes_attempts maxReconnectAttempts_def)
qed

theorem no_sixth_reconnect_attempt_witness:
  "reconnectAttempts (closes [1006, 1006, 1006, 1006, 1006] initial_hook) = maxReconnectAttempts
   \<and> reconnectTimeouts (closes [1006, 1001] (closes [1006, 1006, 1006, 1006, 1006] initial_hook))
       = [2000, 3000, 4000, 5000, 6000]
   \<and> \<not> connected (closes [1006, 1001] (closes [1006, 1006, 1006, 1006, 1006] initial_hook))"
proof -
  have a: "reconnectAttempts (closes [1006, 1006, 1006, 1006, 1006] initial_hook) = maxReconnectAttempts"
    by (simp add: closes_attempts initial_hook_def maxReconnectAttempts_def)
  have t: "reconnectTimeouts (closes [1006, 1006, 1006, 1006, 1006] initial_hook)
             = [2000, 3000, 4000, 5000, 6000]"
    by (simp add: closes_def onclose_def maxReconnectAttempts_def initial_hook_def)
  show ?thesis
    using a t no_sixth_reconnect_attempt [OF a, of "[1006, 1001]"] by simp
qed

section \<open>Every command settles once, as long as its replies are well formed\<close>

lemmas call_defs =
  executeTool_def listResources_def readResource_def listTools_def sendCustomMessage_def
  addServer_def removeServer_def testConnection_def toggleServer_def getServerConfigs_def
  promise_resolve_def setTimeout_def addEventListener_def sendMessage_def log_message_def

lemmas handler_defs =
  handleResponse_def handleResponse_executeTool_def handleResponse_listResources_def
  handleResponse_readResource_def handleResponse_listTools_def
  handleResponse_sendCustomMessage_def handleResponse_addServer_def
  handleResponse_removeServer_def handleResponse_testConnection_def
  handleResponse_toggleServer_def handleResponse_getServerConfigs_def
  removeEventListener_def clearTimeout_def reject_def reject_new_Error_def resolve_def
  settle_def setCachedResult_def log_message_def

lemmas timer_defs =
  timeout_callback_def timeout_executeTool_def timeout_listResources_def
  timeout_readResource_def timeout_listTools_def timeout_sendCustomMessage_def
  timeout_addServer_def timeout_removeServer_def timeout_testConnection_def
  timeout_toggleServer_def timeout_getServerConfigs_def reject_def settle_def
  log_message_def clearTimeout_def








lemma handleResponse_ws: "ws (handleResponse c parsed now st) = ws st"
  and handleResponse_sent: "sent (handleResponse c parsed now st) = sent st"
  and handleResponse_length: "length (promises (handleResponse c parsed now st)) = length (promises st)"
  by (cases "c_kind c"; cases parsed; simp add: handler_defs Let_def)+



subsection \<open>How a call begins\<close>

lemma issue_cases:
  "cache_hit sfy req now st \<or> joined sfy req st \<or> executor_throws req \<or>
   to_backend sfy req now st"
  by (auto simp: to_backend_def)


lemma issue_joined:
  "\<not> cache_hit sfy req now st \<Longrightarrow> joined sfy req st \<Longrightarrow>
   issue sfy req now rnd st = (the (ongoingRequests st (request_key sfy req)), st)"
  by (cases req) (auto simp: listResources_def listTools_def Let_def)


lemma issue_new:
  assumes "to_backend sfy req now st"
  shows "\<exists>c. c_kind c = kind_of req \<and> c_promise c = length (promises st)
    \<and> c_deadline c = now + timeout_ms (kind_of req)
    \<and> c_requestKey c = request_key sfy req
    \<and> fst (issue sfy req now rnd st) = length (promises st)
    \<and> promises (snd (issue sfy req now rnd st)) = promises st @ [Pending]
    \<and> timeouts (snd (issue sfy req now rnd st)) = timeouts st @ [c]
    \<and> listeners (snd (issue sfy req now rnd st)) =
        (if ws st = None then listeners st else listeners st @ [c])
    \<and> requestCache (snd (issue sfy req now rnd st)) = requestCache st
    \<and> ws (snd (issue sfy req now rnd st)) = ws st
    \<and> ongoingRequests (snd (issue sfy req now rnd st)) =
        (if deduplicates (kind_of req)
         then (ongoingRequests st)(request_key sfy req \<mapsto> length (promises st))
         else ongoingRequests st)
    \<and> (ws st = Some OPEN \<longrightarrow>
          (\<exists>m. js_prop m ''requestId'' = JStr (c_requestId c) \<and>
               sent (snd (issue sfy req now rnd st)) = sent st @ [m]))
    \<and> (ws st \<noteq> Some OPEN \<longrightarrow> sent (snd (issue sfy req now rnd st)) = sent st)"
proof (cases req)
  case (ExecuteToolReq serverName toolName params)
  with assms show ?thesis
    by (auto simp: to_backend_def call_defs timeout_ms_def deduplicates_def Let_def)
next
  case (ListResourcesReq serverName)
  with assms show ?thesis
    by (auto simp: to_backend_def call_defs timeout_ms_def deduplicates_def Let_def)
next
  case (ReadResourceReq serverName uri)
  with assms show ?thesis
    by (auto simp: to_backend_def call_defs timeout_ms_def deduplicates_def Let_def)
next
  case (ListToolsReq serverName)
  with assms show ?thesis
    by (auto simp: to_backend_def call_defs timeout_ms_def deduplicates_def Let_def)
next
  case (SendCustomMessageReq message serverName)
  with assms show ?thesis
    by (auto simp: to_backend_def call_defs timeout_ms_def deduplicates_def Let_def)
next
  case (AddServerReq config)
  with assms show ?thesis
    by (auto simp: to_backend_def call_defs timeout_ms_def deduplicates_def Let_def)
next
  case (RemoveServerReq serverId)
  with assms show ?thesis
    by (auto simp: to_backend_def call_defs timeout_ms_def deduplicates_def Let_def)
next
  case (TestConnectionReq config)
  with assms show ?thesis
    by (auto simp: to_backend_def call_defs timeout_ms_def deduplicates_def Let_def)
next
  case (ToggleServerReq serverId enabled)
  with assms show ?thesis
    by (auto simp: to_backend_def call_defs timeout_ms_def deduplicates_def Let_def)
next
  case GetServerConfigsReq
  with assms show ?thesis
    by (auto simp: to_backend_def call_defs timeout_ms_def deduplicates_def Let_def)
qed









subsection \<open>A pending promise keeps its timer\<close>








subsection \<open>A settled promise stays as it is\<close>














subsection \<open>The timer settles what is still pending\<close>



subsection \<open>Deduplicated promises stay guarded\<close>









subsection \<open>One call, one listener, one timer\<close>









subsection \<open>What settles a pending promise\<close>





subsection \<open>A call sent to the backend keeps its timer and its listener\<close>















section \<open>A failed call stores nothing in the cache\<close>
















section \<open>Concurrent identical \<^verbatim>\<open>listTools\<close> calls\<close>

lemma cache_hit_later:
  assumes "now \<le> now'" and "requestCache st' = requestCache st"
    and "\<not> cache_hit sfy req now st"
  shows "\<not> cache_hit sfy req now' st'"
  using assms
  by (cases req)
     (auto simp: getCachedResult_def CACHE_DURATION_def split: option.splits if_splits)

text \<open>
  A second \<^verbatim>\<open>listTools\<close> call made right after the first was sent to the backend, with
  nothing in between, is given the first call's promise and changes nothing.
\<close>

lemma second_listTools_joins_first:
  assumes "to_backend sfy (ListToolsReq serverName) now st" and "now \<le> now'"
  shows "listTools sfy serverName now' rnd' (snd (listTools sfy serverName now rnd st))
           = (fst (listTools sfy serverName now rnd st),
              snd (listTools sfy serverName now rnd st))"
proof -
  let ?req = "ListToolsReq serverName"
  let ?st1 = "snd (issue sfy ?req now rnd st)"
  from issue_new [OF assms(1), of rnd]
  have f: "fst (issue sfy ?req now rnd st) = length (promises st)"
    and c: "requestCache ?st1 = requestCache st"
    and o: "ongoingRequests ?st1 (request_key sfy ?req) = Some (length (promises st))"
    by (auto simp: deduplicates_def)
  have "\<not> cache_hit sfy ?req now st" using assms(1) by (simp add: to_backend_def)
  with assms(2) c have miss: "\<not> cache_hit sfy ?req now' ?st1" by (rule cache_hit_later)
  have "joined sfy ?req ?st1" using o by simp
  with miss have "issue sfy ?req now' rnd' ?st1 = (the (ongoingRequests ?st1 (request_key sfy ?req)), ?st1)"
    by (rule issue_joined)
  with o f show ?thesis by simp
qed

text \<open>
  C5. A \<^verbatim>\<open>listTools\<close> call for a server times out and its listener stays attached (C9). A
  second call for the same server is sent and is in flight when a late error reply to
  the first arrives: the first call's listener deletes the second call's entry in
  \<open>ongoingRequests\<close>. A third call for the same server, made while the second is still
  pending, is then given a promise of its own, and a third \<^verbatim>\<open>list-tools\<close> request is
  sent: two identical calls are in flight with two backend requests.
\<close>

theorem late_reply_breaks_listTools_collapse:
  "promises (run (\<lambda>v. ''{}'')
      [Call (ListToolsReq ''calculator-server'') 0 ''k3j9x0q1z'',
       TimerDue 0 10000,
       Call (ListToolsReq ''calculator-server'') 10001 ''b7c2m5n8p'',
       Message (Some (JObj [(''type'', JStr ''tools-response''),
                            (''requestId'', JStr ''tools_0_k3j9x0q1z''),
                            (''error'', JObj [(''message'', JStr ''Server busy'')])])) 12000]
      open_hook) = [Rejected (JStr ''List tools timeout''), Pending]
   \<and> ongoingRequests (run (\<lambda>v. ''{}'')
      [Call (ListToolsReq ''calculator-server'') 0 ''k3j9x0q1z'',
       TimerDue 0 10000,
       Call (ListToolsReq ''calculator-server'') 10001 ''b7c2m5n8p'']
      open_hook) ''listTools:calculator-server:'' = Some 1
   \<and> ongoingRequests (run (\<lambda>v. ''{}'')
      [Call (ListToolsReq ''calculator-server'') 0 ''k3j9x0q1z'',
       TimerDue 0 10000,
       Call (ListToolsReq ''calculator-server'') 10001 ''b7c2m5n8p'',
       Message (Some (JObj [(''type'', JStr ''tools-response''),
                            (''requestId'', JStr ''tools_0_k3j9x0q1z''),
                            (''error'', JObj [(''message'', JStr ''Server busy'')])])) 12000]
      open_hook) ''listTools:calculator-server:'' = None
   \<and> fst (issue (\<lambda>v. ''{}'') (ListToolsReq ''calculator-server'') 12003 ''x4y5z6a7b''
      (run (\<lambda>v. ''{}'')
        [Call (ListToolsReq ''calculator-server'') 0 ''k3j9x0q1z'',
         TimerDue 0 10000,
         Call (ListToolsReq ''calculator-server'') 10001 ''b7c2m5n8p'',
         Message (Some (JObj [(''type'', JStr ''tools-response''),
                              (''requestId'', JStr ''tools_0_k3j9x0q1z''),
                              (''error'', JObj [(''message'', JStr ''Server busy'')])])) 12000]
        open_hook)) = 2
   \<and> promises (run (\<lambda>v. ''{}'')
      [Call (ListToolsReq ''calculator-server'') 0 ''k3j9x0q1z'',
       TimerDue 0 10000,
       Call (ListToolsReq ''calculator-server'') 10001 ''b7c2m5n8p'',
       Message (Some (JObj [(''type'', JStr ''tools-response''),
                            (''requestId'', JStr ''tools_0_k3j9x0q1z''),
                            (''error'', JObj [(''message'', JStr ''Server busy'')])])) 12000,
       Call (ListToolsReq ''calculator-server'') 12003 ''x4y5z6a7b'']
      open_hook) = [Rejected (JStr ''List tools timeout''), Pending, Pending]
   \<and> map (\<lambda>m. js_prop m ''requestId'') (list_tools_sent ''calculator-server''
      (run (\<lambda>v. ''{}'')
        [Call (ListToolsReq ''calculator-server'') 0 ''k3j9x0q1z'',
         TimerDue 0 10000,
         Call (ListToolsReq ''calculator-server'') 10001 ''b7c2m5n8p'',
         Message (Some (JObj [(''type'', JStr ''tools-response''),
                              (''requestId'', JStr ''tools_0_k3j9x0q1z''),
                              (''error'', JObj [(''message'', JStr ''Server busy'')])])) 12000,
         Call (ListToolsReq ''calculator-server'') 12003 ''x4y5z6a7b'']
        open_hook))
       = [JStr ''tools_0_k3j9x0q1z'', JStr ''tools_10001_b7c2m5n8p'',
          JStr ''tools_12003_x4y5z6a7b'']"
  by code_simp

section \<open>Listeners that outlive their call, and the ids of \<^verbatim>\<open>readResource\<close>\<close>

text \<open>No timer callback touches the listeners, whatever the call and the state.\<close>

lemma timeout_keeps_listeners:
  "listeners (timeout_callback c now (clearTimeout c st)) = listeners st"
  by (cases "c_kind c") (simp_all add: timer_defs Let_def)

lemma fire_keeps_listeners: "listeners (fire p now st) = listeners st"
  by (simp add: fire_def timeout_keeps_listeners split: option.splits)

text \<open>
  C9. A call's timer callback rejects the promise and does nothing to the listener:
  after \<^verbatim>\<open>executeTool\<close> and \<^verbatim>\<open>listTools\<close> time out, their promises are rejected, no timer
  is armed, and both listeners are still attached to the socket. When the matching
  response arrives instead, the listener is removed.
\<close>

theorem timeout_leaves_listener_attached:
  "promises (run (\<lambda>v. ''{}'')
       [Call (ExecuteToolReq ''calculator-server'' ''add'' (JObj [(''a'', JNum 5), (''b'', JNum 3)]))
          1000 ''k3j9x0q1z'',
        Call (ListToolsReq ''calculator-server'') 1002 ''b7c2m5n8p'',
        TimerDue 1 11002, TimerDue 0 31000] open_hook)
     = [Rejected (JStr ''Tool execution timeout''), Rejected (JStr ''List tools timeout'')]
   \<and> timeouts (run (\<lambda>v. ''{}'')
       [Call (ExecuteToolReq ''calculator-server'' ''add'' (JObj [(''a'', JNum 5), (''b'', JNum 3)]))
          1000 ''k3j9x0q1z'',
        Call (ListToolsReq ''calculator-server'') 1002 ''b7c2m5n8p'',
        TimerDue 1 11002, TimerDue 0 31000] open_hook) = []
   \<and> map c_requestId (listeners (run (\<lambda>v. ''{}'')
       [Call (ExecuteToolReq ''calculator-server'' ''add'' (JObj [(''a'', JNum 5), (''b'', JNum 3)]))
          1000 ''k3j9x0q1z'',
        Call (ListToolsReq ''calculator-server'') 1002 ''b7c2m5n8p'',
        TimerDue 1 11002, TimerDue 0 31000] open_hook))
     = [''tool_1000_k3j9x0q1z'', ''tools_1002_b7c2m5n8p'']
   \<and> listeners (run (\<lambda>v. ''{}'')
       [Call (ExecuteToolReq ''calculator-server'' ''add'' (JObj [(''a'', JNum 5), (''b'', JNum 3)]))
          1000 ''k3j9x0q1z'',
        Message (Some (JObj [(''type'', JStr ''tool-response''),
                             (''requestId'', JStr ''tool_1000_k3j9x0q1z''),
                             (''result'', text_result ''5 + 3 = 8'')])) 1200] open_hook) = []"
  by code_simp

text \<open>
  C1. \<^verbatim>\<open>readResource\<close> logs its request under the generated request id and its response
  under that id followed by \<^verbatim>\<open>_response\<close> (or \<^verbatim>\<open>_timeout\<close>, when the timer fires): the
  log then holds a response whose id no request carries, and \<^verbatim>\<open>pairedResponse\<close>, which
  looks for a response with the request's id, finds none for the request. The hub's
  wrapper of \<^verbatim>\<open>callTool\<close>, in contrast, logs request and response under one id.
\<close>

theorem readResource_response_id_differs:
  "map (\<lambda>m. (js_prop m ''type'', js_prop m ''id''))
     (messages (run (\<lambda>v. ''{}'')
        [Call (ReadResourceReq ''notes-server'' ''notes://all'') 1000 ''k3j9x0q1z'',
         Message (Some (JObj [(''type'', JStr ''read-resource-response''),
                              (''requestId'', JStr ''read_resource_1000_k3j9x0q1z''),
                              (''result'', JObj [(''contents'', JArr [])])])) 1005,
         Call (ReadResourceReq ''notes-server'' ''notes://all'') 2000 ''b7c2m5n8p'',
         TimerDue 1 12000] open_hook))
     = [(JStr ''request'', JStr ''read_resource_1000_k3j9x0q1z''),
        (JStr ''response'', JStr ''read_resource_1000_k3j9x0q1z_response''),
        (JStr ''request'', JStr ''read_resource_2000_b7c2m5n8p''),
        (JStr ''response'', JStr ''read_resource_2000_b7c2m5n8p_timeout'')]
   \<and> map (\<lambda>m. pairedResponse m
        (messages (run (\<lambda>v. ''{}'')
          [Call (ReadResourceReq ''notes-server'' ''notes://all'') 1000 ''k3j9x0q1z'',
           Message (Some (JObj [(''type'', JStr ''read-resource-response''),
                                (''requestId'', JStr ''read_resource_1000_k3j9x0q1z''),
                                (''result'', JObj [(''contents'', JArr [])])])) 1005,
           Call (ReadResourceReq ''notes-server'' ''notes://all'') 2000 ''b7c2m5n8p'',
           TimerDue 1 12000] open_hook)))
      (messages (run (\<lambda>v. ''{}'')
          [Call (ReadResourceReq ''notes-server'' ''notes://all'') 1000 ''k3j9x0q1z'',
           Message (Some (JObj [(''type'', JStr ''read-resource-response''),
                                (''requestId'', JStr ''read_resource_1000_k3j9x0q1z''),
                                (''result'', JObj [(''contents'', JArr [])])])) 1005,
           Call (ReadResourceReq ''notes-server'' ''notes://all'') 2000 ''b7c2m5n8p'',
           TimerDue 1 12000] open_hook))
     = [JUndefined, JUndefined, JUndefined, JUndefined]
   \<and> map (\<lambda>m. (js_prop m ''type'', js_prop m ''id''))
       (messageHistory (snd (executeToolFromDashboard OPEN (JStr ''r1'') ''calculator-server''
          ''add'' (JObj [(''a'', JNum 5), (''b'', JNum 3)]) 1000 1003
          (calculator_hub throwing_runtime))))
     = [(JStr ''request'', JStr ''1''), (JStr ''response'', JStr ''1'')]"
  by code_simp


section \<open>The calculator's \<^verbatim>\<open>add\<close> and the hub's reply\<close>

lemma show_int_5: "show_int 5 = ''5''"
  and show_int_3: "show_int 3 = ''3''"
  and show_int_8: "show_int 8 = ''8''"
  by (simp_all add: show_int_def digits.simps digit_char_def)

lemma callTool_add_5_3:
  "callTool rt ''add'' (JObj [(''a'', JNum 5), (''b'', JNum 3)]) = Inr (text_result ''5 + 3 = 8'')"
  by (simp add: callTool_def callTool_try_def js_add_def safe_def binary_text_def and_then_def
      show_int_5 show_int_3 show_int_8)

text \<open>
  C8. Whatever the runtime does outside exact integers, the calculator's handler called
  with \<^verbatim>\<open>add\<close> and \<^verbatim>\<open>{a: 5, b: 3}\<close> returns the single text item \<^verbatim>\<open>5 + 3 = 8\<close> with no
  \<^verbatim>\<open>isError\<close> key, and the hub, with that server connected, answers the dashboard's
  \<^verbatim>\<open>execute-tool\<close> command \<^verbatim>\<open>r1\<close> on an open socket with exactly one \<^verbatim>\<open>tool-response\<close>
  carrying the request id and that result.
\<close>

theorem calculator_add_5_3:
  "callTool rt ''add'' (JObj [(''a'', JNum 5), (''b'', JNum 3)])
     = Inr (JObj [(''content'',
                   JArr [JObj [(''type'', JStr ''text''), (''text'', JStr ''5 + 3 = 8'')]])])
   \<and> fst (executeToolFromDashboard OPEN (JStr ''r1'') ''calculator-server'' ''add''
            (JObj [(''a'', JNum 5), (''b'', JNum 3)]) now later (calculator_hub rt))
     = [JObj [(''type'', JStr ''tool-response''), (''requestId'', JStr ''r1''),
              (''result'', JObj [(''content'',
                 JArr [JObj [(''type'', JStr ''text''), (''text'', JStr ''5 + 3 = 8'')]])])]]"
  using callTool_add_5_3 [of rt]
  by (simp add: executeToolFromDashboard_def calculator_hub_def client_callTool_def
      calculator_backend_def text_result_def Let_def)

section \<open>The calculator's handler never throws\<close>







end
